theory Spec2Isabelle
  imports Complex_Main
begin
section \<open>The environment the service runs in\<close>

text \<open>
  Times are UTC instants counted in microseconds (the resolution of Python's
  \<^verbatim>\<open>datetime\<close>), file contents and HTTP bodies are byte strings.
\<close>

type_synonym bytes = string
type_synonym instant = int

definition one_day :: int where
  "one_day = 86400000000"

definition sixty_seconds :: int where
  "sixty_seconds = 60000000"

text \<open>
  The TLS verification of a request: the value of \<^verbatim>\<open>verify\<close> that \<^verbatim>\<open>requests\<close> hands to
  the transport (\<^verbatim>\<open>False\<close>, the path of a CA bundle, or \<^verbatim>\<open>True\<close> for the default bundle).
\<close>

datatype verify = VerifyDisabled | VerifyCA string | VerifyDefault

text \<open>The two sessions of the process: the one of the CRL manager, the one of the EST client.\<close>

datatype session = CRLSession | ESTSession

record http_request =
  via :: session
  http_method :: string
  url :: string
  tls_verify :: verify

text \<open>
  What \<^verbatim>\<open>session.get\<close> / \<^verbatim>\<open>session.post\<close> does: it raises (connection error, timeout, TLS
  failure) or it returns a response with a status code and a body.
\<close>

datatype http_response = RequestException | Response nat bytes

text \<open>
  What a run of the \<^verbatim>\<open>step\<close> command line tool leaves behind: whether it exited with
  code 0, its output, and the file system after it.
\<close>

record step_result =
  success :: bool
  stdout :: string
  stderr :: string
  files_after :: "string \<rightharpoonup> bytes"

text \<open>
  The world outside the process.
  \<^item> \<open>clock\<close> is the sequence of values that successive calls of \<^verbatim>\<open>datetime.now\<close> return
    and \<open>reads\<close> counts the calls made so far.
  \<^item> \<open>env_ca_bundle\<close> is the CA bundle named by the process environment: the value of
    \<^verbatim>\<open>os.environ.get('REQUESTS_CA_BUNDLE') or os.environ.get('CURL_CA_BUNDLE')\<close>.
  \<^item> \<open>http\<close> gives the answer of the network to the n-th request, \<open>requests\<close> is the list of
    requests sent so far.
  \<^item> \<open>files\<close> is the file system; \<open>makedirs_fails\<close>, \<open>write_fails\<close> and \<open>chmod_fails\<close>
    tell for which file \<^verbatim>\<open>os.makedirs\<close> of its directory, \<^verbatim>\<open>open(..., 'wb')\<close> and
    \<^verbatim>\<open>os.chmod\<close> raise.
  \<^item> \<open>step_cli\<close> is what the n-th run of the \<^verbatim>\<open>step\<close> tool does with its arguments, its
    standard input and the files it finds, \<open>commands\<close> the runs so far, and
    \<open>tempfile_name\<close> the name that \<^verbatim>\<open>tempfile.NamedTemporaryFile\<close> picks after n runs.
  \<^item> \<open>rsa_key\<close> is the PEM of the private key that \<^verbatim>\<open>rsa.generate_private_key\<close> returns when
    n requests have been sent.
\<close>

record World =
  clock :: "nat \<Rightarrow> instant"
  reads :: nat
  env_ca_bundle :: "string option"
  http :: "nat \<Rightarrow> string \<Rightarrow> http_response"
  requests :: "http_request list"
  files :: "string \<rightharpoonup> bytes"
  makedirs_fails :: "string \<Rightarrow> bool"
  write_fails :: "string \<Rightarrow> bool"
  chmod_fails :: "string \<Rightarrow> bool"
  step_cli :: "nat \<Rightarrow> string list \<Rightarrow> string option \<Rightarrow> (string \<rightharpoonup> bytes) \<Rightarrow> step_result"
  commands :: "string list list"
  tempfile_name :: "nat \<Rightarrow> string"
  rsa_key :: "nat \<Rightarrow> bytes"

definition datetime_now :: "World \<Rightarrow> instant \<times> World" where
  "datetime_now w = (clock w (reads w), w\<lparr>reads := Suc (reads w)\<rparr>)"

definition path_exists :: "World \<Rightarrow> string \<Rightarrow> bool" where
  "path_exists w p = (files w p \<noteq> None)"

text \<open>\<^verbatim>\<open>open(path, 'wb').write(data)\<close>: raises when the path cannot be opened.\<close>

definition write_file :: "string \<Rightarrow> bytes \<Rightarrow> World \<Rightarrow> World option" where
  "write_file p d w = (if write_fails w p then None else Some (w\<lparr>files := (files w)(p \<mapsto> d)\<rparr>))"

text \<open>
  A request of a session that passes no \<^verbatim>\<open>verify\<close> argument: \<^verbatim>\<open>Session.request\<close> (with
  \<^verbatim>\<open>trust_env\<close>, which the code leaves at \<^verbatim>\<open>True\<close>) first takes the CA bundle of the
  environment, and only when there is none the \<^verbatim>\<open>verify\<close> attribute of the session.
\<close>

definition request_verify :: "World \<Rightarrow> verify \<Rightarrow> verify" where
  "request_verify w session_setting =
     (case env_ca_bundle w of
        Some bundle \<Rightarrow> if bundle \<noteq> [] then VerifyCA bundle else session_setting
      | None \<Rightarrow> session_setting)"

definition send_request ::
  "session \<Rightarrow> string \<Rightarrow> verify \<Rightarrow> string \<Rightarrow> World \<Rightarrow> http_response \<times> World" where
  "send_request s method session_setting target w =
     (http w (length (requests w)) target,
      w\<lparr>requests := requests w @
           [\<lparr>via = s, http_method = method, url = target,
             tls_verify = request_verify w session_setting\<rparr>]\<rparr>)"

section \<open>X.509 objects\<close>

record RevokedCertificate =
  rc_serial_number :: int
  revocation_date_utc :: instant
  crl_reason :: "string option"

record CertificateRevocationList =
  issuer :: string
  last_update_utc :: instant
  next_update_utc :: "instant option"
  revoked_certificates :: "RevokedCertificate list"

record Certificate =
  not_valid_before :: instant
  not_valid_after :: instant
  serial_number :: int
  crl_distribution_points :: "string list"

text \<open>
  The parts of the Python runtime and of the libraries that the code calls: the PEM and DER
  parsers of \<^verbatim>\<open>cryptography.x509\<close> (\<open>None\<close> where they raise \<^verbatim>\<open>ValueError\<close>), the cache file
  name derived from a URL (a SHA-256 digest), the order in which a \<^verbatim>\<open>for\<close> loop walks
  through the \<^verbatim>\<open>set\<close> built from a list of strings, and the subjects and alternative
  names that the builder of a signing request refuses with an exception.
\<close>

record Runtime =
  load_pem_x509_crl :: "bytes \<Rightarrow> CertificateRevocationList option"
  load_der_x509_crl :: "bytes \<Rightarrow> CertificateRevocationList option"
  load_pem_x509_certificate :: "bytes \<Rightarrow> Certificate option"
  load_der_x509_certificate :: "bytes \<Rightarrow> Certificate option"
  get_crl_file_path :: "string \<Rightarrow> string \<Rightarrow> string"
  set_iteration :: "string list \<Rightarrow> string list"
  generate_csr_raises :: "string \<Rightarrow> string list \<Rightarrow> bool"

text \<open>A set holds each element once, in an order of the runtime's choosing.\<close>

definition set_iteration_ok :: "Runtime \<Rightarrow> bool" where
  "set_iteration_ok rt = (\<forall>xs. distinct (set_iteration rt xs) \<and> set (set_iteration rt xs) = set xs)"

text \<open>
  \<^verbatim>\<open>x509.CertificateRevocationList\<close> defines \<^verbatim>\<open>__len__\<close> (the number of revoked
  certificates), so the truth value that \<^verbatim>\<open>if crl:\<close> tests is "has at least one entry".
\<close>

definition crl_truthy :: "CertificateRevocationList \<Rightarrow> bool" where
  "crl_truthy crl = (revoked_certificates crl \<noteq> [])"

section \<open>crl\_manager.py\<close>

record StepCAConfig =
  ca_url :: string
  provisioner_name :: string
  provisioner_password :: "string option"
  root_cert_path :: string
  protocol :: string
  est_ca_bundle :: "string option"
  crl_enabled :: bool
  crl_urls :: "string list option"
  crl_cache_dir :: string

record CRLInfo =
  info_url :: string
  info_file_path :: string
  info_issuer :: string
  info_last_update :: instant
  info_next_update :: "instant option"
  info_revoked_count :: nat
  info_is_valid :: bool

record RevocationStatus =
  rs_is_revoked :: bool
  revocation_date :: "instant option"
  revocation_reason :: "string option"
  crl_source :: "string option"
  check_time :: instant

record CRLManager =
  config :: StepCAConfig
  session_verify :: verify
  crl_cache :: "string \<rightharpoonup> CertificateRevocationList"
  crl_info_cache :: "string \<rightharpoonup> CRLInfo"
  last_download_time :: "string \<rightharpoonup> instant"

text \<open>\<^verbatim>\<open>CRLManager.__init__\<close>: the TLS setting of the session and the empty caches.\<close>

definition CRLManager_init :: "StepCAConfig \<Rightarrow> World \<Rightarrow> CRLManager" where
  "CRLManager_init step_config w =
     \<lparr>config = step_config,
      session_verify =
        (if root_cert_path step_config \<noteq> [] \<and> path_exists w (root_cert_path step_config)
         then VerifyCA (root_cert_path step_config) else VerifyDisabled),
      crl_cache = Map.empty,
      crl_info_cache = Map.empty,
      last_download_time = Map.empty\<rparr>"

text \<open>
  \<^verbatim>\<open>download_crl\<close>: one GET through the session, without a \<^verbatim>\<open>verify\<close> argument; an
  exception, an error status (\<^verbatim>\<open>raise_for_status\<close>) and an empty body all give \<open>None\<close>.
\<close>

definition download_crl :: "string \<Rightarrow> CRLManager \<Rightarrow> World \<Rightarrow> bytes option \<times> World" where
  "download_crl crl_url m w =
     (let (response, w') = send_request CRLSession ''GET'' (session_verify m) crl_url w
      in case response of
           RequestException \<Rightarrow> (None, w')
         | Response status content \<Rightarrow>
             if 400 \<le> status \<and> status < 600 then (None, w')
             else if content \<noteq> [] then (Some content, w')
             else (None, w'))"

text \<open>PEM first, then DER; \<open>None\<close> is the \<^verbatim>\<open>ValueError\<close> of the second parser.\<close>

definition parse_crl :: "Runtime \<Rightarrow> bytes \<Rightarrow> CertificateRevocationList option" where
  "parse_crl rt crl_data =
     (case load_pem_x509_crl rt crl_data of
        Some crl \<Rightarrow> Some crl
      | None \<Rightarrow> load_der_x509_crl rt crl_data)"

definition load_crl_from_file :: "Runtime \<Rightarrow> string \<Rightarrow> World \<Rightarrow> CertificateRevocationList option" where
  "load_crl_from_file rt file_path w =
     (case files w file_path of
        None \<Rightarrow> None
      | Some crl_data \<Rightarrow> parse_crl rt crl_data)"

text \<open>
  \<^verbatim>\<open>save_crl_to_file\<close>: directory, write, permissions; the first of them that raises ends
  the function with \<open>False\<close>, and what was written stays.
\<close>

definition save_crl_to_file :: "bytes \<Rightarrow> string \<Rightarrow> World \<Rightarrow> bool \<times> World" where
  "save_crl_to_file crl_data file_path w =
     (if makedirs_fails w file_path then (False, w)
      else (case write_file file_path crl_data w of
              None \<Rightarrow> (False, w)
            | Some w' \<Rightarrow> if chmod_fails w' file_path then (False, w') else (True, w')))"

definition get_crl_info ::
  "Runtime \<Rightarrow> CertificateRevocationList \<Rightarrow> string \<Rightarrow> CRLManager \<Rightarrow> World \<Rightarrow> CRLInfo \<times> World" where
  "get_crl_info rt crl crl_url m w =
     (let (now, w') = datetime_now w
      in (\<lparr>info_url = crl_url,
           info_file_path = get_crl_file_path rt (crl_cache_dir (config m)) crl_url,
           info_issuer = issuer crl,
           info_last_update = last_update_utc crl,
           info_next_update = next_update_utc crl,
           info_revoked_count = length (revoked_certificates crl),
           info_is_valid = (last_update_utc crl \<le> now \<and>
              (case next_update_utc crl of None \<Rightarrow> True | Some nu \<Rightarrow> now \<le> nu))\<rparr>, w'))"

text \<open>
  The fallback that both failure branches of \<^verbatim>\<open>refresh_crl\<close> end with: load the cached
  file and, if the loaded CRL passes \<^verbatim>\<open>if crl:\<close>, put it into the in-memory cache.
\<close>

definition load_cached_file ::
  "Runtime \<Rightarrow> string \<Rightarrow> string \<Rightarrow> CRLManager \<Rightarrow> World
     \<Rightarrow> CertificateRevocationList option \<times> CRLManager \<times> World" where
  "load_cached_file rt crl_url file_path m w =
     (case load_crl_from_file rt file_path w of
        Some crl \<Rightarrow>
          if crl_truthy crl then (Some crl, m\<lparr>crl_cache := (crl_cache m)(crl_url \<mapsto> crl)\<rparr>, w)
          else (None, m, w)
      | None \<Rightarrow> (None, m, w))"

text \<open>The test that opens \<^verbatim>\<open>refresh_crl\<close>: downloaded less than 60 seconds ago, and cached.\<close>

definition recently_downloaded :: "CRLManager \<Rightarrow> string \<Rightarrow> instant \<Rightarrow> bool" where
  "recently_downloaded m crl_url now =
     (case last_download_time m crl_url of
        None \<Rightarrow> False
      | Some t \<Rightarrow> now - t < sixty_seconds \<and> crl_cache m crl_url \<noteq> None)"

definition refresh_crl ::
  "Runtime \<Rightarrow> string \<Rightarrow> CRLManager \<Rightarrow> World
     \<Rightarrow> CertificateRevocationList option \<times> CRLManager \<times> World" where
  "refresh_crl rt crl_url m w =
     (let file_path = get_crl_file_path rt (crl_cache_dir (config m)) crl_url;
          (now, w1) = datetime_now w
      in if recently_downloaded m crl_url now then (crl_cache m crl_url, m, w1)
         else
           (let (crl_data, w2) = download_crl crl_url m w1
            in case crl_data of
                 None \<Rightarrow>
                   (case crl_cache m crl_url of
                      Some crl \<Rightarrow> (Some crl, m, w2)
                    | None \<Rightarrow> load_cached_file rt crl_url file_path m w2)
               | Some data \<Rightarrow>
                   (let m1 = m\<lparr>last_download_time := (last_download_time m)(crl_url \<mapsto> now)\<rparr>;
                        (saved, w3) = save_crl_to_file data file_path w2
                    in case parse_crl rt data of
                         Some crl \<Rightarrow>
                           (let (info, w4) = get_crl_info rt crl crl_url m1 w3
                            in (Some crl,
                                m1\<lparr>crl_cache := (crl_cache m1)(crl_url \<mapsto> crl),
                                   crl_info_cache := (crl_info_cache m1)(crl_url \<mapsto> info)\<rparr>,
                                w4))
                       | None \<Rightarrow> load_cached_file rt crl_url file_path m1 w3)))"

text \<open>
  Building a \<^verbatim>\<open>RevocationStatus\<close> without a \<^verbatim>\<open>check_time\<close> reads the clock
  (\<^verbatim>\<open>__post_init__\<close>).
\<close>

definition not_revoked :: "World \<Rightarrow> RevocationStatus \<times> World" where
  "not_revoked w =
     (let (now, w') = datetime_now w
      in (\<lparr>rs_is_revoked = False, revocation_date = None, revocation_reason = None,
           crl_source = None, check_time = now\<rparr>, w'))"

definition revoked_status :: "RevokedCertificate \<Rightarrow> string \<Rightarrow> World \<Rightarrow> RevocationStatus \<times> World" where
  "revoked_status revoked_cert crl_url w =
     (let (now, w') = datetime_now w
      in (\<lparr>rs_is_revoked = True,
           revocation_date = Some (revocation_date_utc revoked_cert),
           revocation_reason =
             Some (case crl_reason revoked_cert of None \<Rightarrow> ''Unspecified'' | Some r \<Rightarrow> r),
           crl_source = Some crl_url,
           check_time = now\<rparr>, w'))"

text \<open>The inner loop \<^verbatim>\<open>for revoked_cert in crl\<close>: the first entry with the serial number.\<close>

definition find_revoked :: "CertificateRevocationList \<Rightarrow> int \<Rightarrow> RevokedCertificate option" where
  "find_revoked crl cert_serial =
     find (\<lambda>revoked_cert. rc_serial_number revoked_cert = cert_serial) (revoked_certificates crl)"

text \<open>The loop \<^verbatim>\<open>for crl_url in crl_urls\<close> of \<^verbatim>\<open>check_certificate_revocation\<close>.\<close>

fun check_crls ::
  "Runtime \<Rightarrow> Certificate \<Rightarrow> string list \<Rightarrow> CRLManager \<Rightarrow> World
     \<Rightarrow> RevocationStatus \<times> CRLManager \<times> World" where
  "check_crls rt certificate [] m w = (case not_revoked w of (rs, w') \<Rightarrow> (rs, m, w'))"
| "check_crls rt certificate (crl_url # rest) m w =
     (case refresh_crl rt crl_url m w of
        (None, m', w') \<Rightarrow> check_crls rt certificate rest m' w'
      | (Some crl, m', w') \<Rightarrow>
          if \<not> crl_truthy crl then check_crls rt certificate rest m' w'
          else (case find_revoked crl (serial_number certificate) of
                  Some revoked_cert \<Rightarrow>
                    (case revoked_status revoked_cert crl_url w' of (rs, w'') \<Rightarrow> (rs, m', w''))
                | None \<Rightarrow> check_crls rt certificate rest m' w'))"

text \<open>The URLs put into the set: the configured ones, then the certificate's own.\<close>

definition collected_urls :: "CRLManager \<Rightarrow> Certificate \<Rightarrow> string list" where
  "collected_urls m certificate =
     (case crl_urls (config m) of None \<Rightarrow> [] | Some urls \<Rightarrow> urls)
       @ crl_distribution_points certificate"

definition check_certificate_revocation ::
  "Runtime \<Rightarrow> Certificate \<Rightarrow> CRLManager \<Rightarrow> World \<Rightarrow> RevocationStatus \<times> CRLManager \<times> World" where
  "check_certificate_revocation rt certificate m w =
     (if \<not> crl_enabled (config m) then (case not_revoked w of (rs, w') \<Rightarrow> (rs, m, w'))
      else if collected_urls m certificate = []
        then (case not_revoked w of (rs, w') \<Rightarrow> (rs, m, w'))
      else check_crls rt certificate (set_iteration rt (collected_urls m certificate)) m w)"

text \<open>
  What the rest of the process (the monitor reading the clock, the logger, the enrollment
  clients with their requests and commands) and other programs can do to the world
  between two calls of the manager: anything, except sending a request through the
  manager's session, taking back a request or a reading of the clock, or changing the
  values that the clock is going to show.
\<close>

definition other_activity :: "World \<Rightarrow> World \<Rightarrow> bool" where
  "other_activity w w' =
     (clock w' = clock w \<and> reads w \<le> reads w' \<and>
      (\<exists>new. requests w' = requests w @ new \<and> list_all (\<lambda>r. via r \<noteq> CRLSession) new))"

text \<open>
  What can happen to a manager between two moments of one process: calls of
  \<^verbatim>\<open>refresh_crl\<close> and of \<^verbatim>\<open>check_certificate_revocation\<close>, for any URL and certificate,
  and in between any other activity.
\<close>

inductive crl_run :: "Runtime \<Rightarrow> CRLManager \<times> World \<Rightarrow> CRLManager \<times> World \<Rightarrow> bool"
  for rt :: Runtime and s :: "CRLManager \<times> World" where
  run_start: "crl_run rt s s"
| run_refresh:
    "crl_run rt s (m, w) \<Longrightarrow> refresh_crl rt crl_url m w = (r, m', w') \<Longrightarrow> crl_run rt s (m', w')"
| run_check:
    "crl_run rt s (m, w) \<Longrightarrow> check_certificate_revocation rt certificate m w = (st, m', w')
       \<Longrightarrow> crl_run rt s (m', w')"
| run_other: "crl_run rt s (m, w) \<Longrightarrow> other_activity w w' \<Longrightarrow> crl_run rt s (m, w')"

section \<open>config.py and certificate\_monitor.py\<close>

text \<open>
  \<^verbatim>\<open>get_effective_renewal_threshold\<close> reads the attribute \<^verbatim>\<open>renewal_threshold_days\<close> of
  the certificate's configuration. The class \<^verbatim>\<open>CertificateConfig\<close> of config.py declares
  \<^verbatim>\<open>renewal_threshold_percent\<close> and no such field, so on an object of that class the read
  raises \<^verbatim>\<open>AttributeError\<close>; an object that has the attribute holds \<^verbatim>\<open>None\<close> or a number
  of days there.
\<close>

datatype threshold_attribute = NoAttribute | IsNone | Days int

record CertificateConfig =
  name :: string
  cert_path :: string
  key_path :: string
  renewal_threshold_percent :: "rat option"
  subject :: string
  sans :: "string list"
  renewal_threshold_days :: threshold_attribute

text \<open>
  The service configuration accepts extra fields; the three thresholds the monitor looks
  up are \<open>None\<close> when the field is not there (\<^verbatim>\<open>getattr\<close> with a default, \<^verbatim>\<open>hasattr\<close>).
\<close>

record ServiceConfig =
  default_renewal_threshold_days :: "int option"
  emergency_renewal_threshold_days :: "int option"
  warning_threshold_days :: "int option"
  step_ca :: StepCAConfig
  certificates :: "CertificateConfig list"

datatype py_exception = AttributeError string

definition str_of_exception :: "py_exception \<Rightarrow> string" where
  "str_of_exception e = (case e of AttributeError a \<Rightarrow>
     [CHR 0x27] @ ''CertificateConfig'' @ [CHR 0x27] @ '' object has no attribute ''
       @ [CHR 0x27] @ a @ [CHR 0x27])"

record CertificateStatus =
  status_name :: string
  status_cert_path :: string
  is_valid :: bool
  expires_at :: "instant option"
  days_until_expiry :: "int option"
  needs_renewal :: bool
  status_renewal_threshold_days :: int
  renewal_reason :: string
  is_revoked :: bool
  revocation_info :: "RevocationStatus option"
  error_message :: "string option"

record CertificateMonitor =
  service_config :: "ServiceConfig option"
  crl_manager :: "CRLManager option"

definition CertificateMonitor_init ::
  "StepCAConfig option \<Rightarrow> ServiceConfig option \<Rightarrow> World \<Rightarrow> CertificateMonitor" where
  "CertificateMonitor_init step_config service_cfg w =
     \<lparr>service_config = service_cfg,
      crl_manager =
        (case step_config of
           Some sc \<Rightarrow> if crl_enabled sc then Some (CRLManager_init sc w) else None
         | None \<Rightarrow> None)\<rparr>"

definition load_certificate :: "Runtime \<Rightarrow> string \<Rightarrow> World \<Rightarrow> Certificate option" where
  "load_certificate rt path w =
     (case files w path of
        None \<Rightarrow> None
      | Some cert_data \<Rightarrow>
          (case load_pem_x509_certificate rt cert_data of
             Some certificate \<Rightarrow> Some certificate
           | None \<Rightarrow> load_der_x509_certificate rt cert_data))"

text \<open>
  \<^verbatim>\<open>(expires_at - now).days\<close> is the floor of the difference over one day, negative for a
  certificate that has expired.
\<close>

definition check_certificate_expiry ::
  "CertificateMonitor \<Rightarrow> Certificate \<Rightarrow> int \<Rightarrow> World
     \<Rightarrow> (instant \<times> int \<times> bool \<times> string) \<times> World" where
  "check_certificate_expiry mon certificate threshold_days w =
     (let expires = not_valid_after certificate;
          (now, w') = datetime_now w;
          days = (expires - now) div one_day;
          needs = (days \<le> threshold_days);
          reason =
            (case service_config mon of
               Some sc \<Rightarrow>
                 (let emergency_threshold =
                        (case emergency_renewal_threshold_days sc of Some d \<Rightarrow> d | None \<Rightarrow> 7);
                      warning_threshold =
                        (case warning_threshold_days sc of Some d \<Rightarrow> d | None \<Rightarrow> 14)
                  in if days \<le> emergency_threshold then ''emergency''
                     else if days \<le> warning_threshold
                       then (if needs then ''warning'' else ''approaching'')
                     else (if needs then ''normal'' else ''valid''))
             | None \<Rightarrow> (if needs then ''normal'' else ''valid''))
      in ((expires, days, needs, reason), w'))"

definition get_effective_renewal_threshold ::
  "CertificateMonitor \<Rightarrow> CertificateConfig \<Rightarrow> py_exception + int" where
  "get_effective_renewal_threshold mon cert_config =
     (case renewal_threshold_days cert_config of
        NoAttribute \<Rightarrow> Inl (AttributeError ''renewal_threshold_days'')
      | Days d \<Rightarrow> Inr d
      | IsNone \<Rightarrow>
          (case service_config mon of
             Some sc \<Rightarrow>
               (case default_renewal_threshold_days sc of Some d \<Rightarrow> Inr d | None \<Rightarrow> Inr 30)
           | None \<Rightarrow> Inr 30))"

text \<open>
  The status that both error returns of \<^verbatim>\<open>check_certificate_status\<close> build; the threshold
  is looked up again there, outside any handler, so a failing lookup leaves the function as
  an exception.
\<close>

definition error_status ::
  "CertificateMonitor \<Rightarrow> CertificateConfig \<Rightarrow> string \<Rightarrow> py_exception + CertificateStatus" where
  "error_status mon cert_config msg =
     (case get_effective_renewal_threshold mon cert_config of
        Inl e \<Rightarrow> Inl e
      | Inr threshold \<Rightarrow>
          Inr \<lparr>status_name = name cert_config,
               status_cert_path = cert_path cert_config,
               is_valid = False,
               expires_at = None,
               days_until_expiry = None,
               needs_renewal = True,
               status_renewal_threshold_days = threshold,
               renewal_reason = ''error'',
               is_revoked = False,
               revocation_info = None,
               error_message = Some msg\<rparr>)"

text \<open>The body of the \<^verbatim>\<open>try\<close> block of \<^verbatim>\<open>check_certificate_status\<close>.\<close>

definition check_loaded_certificate ::
  "Runtime \<Rightarrow> CertificateMonitor \<Rightarrow> CertificateConfig \<Rightarrow> Certificate \<Rightarrow> World
     \<Rightarrow> py_exception + (CertificateStatus \<times> CertificateMonitor \<times> World)" where
  "check_loaded_certificate rt mon cert_config certificate w =
     (case get_effective_renewal_threshold mon cert_config of
        Inl e \<Rightarrow> Inl e
      | Inr renewal_threshold \<Rightarrow>
          (let ((expires, days, needs, reason), w1) =
                  check_certificate_expiry mon certificate renewal_threshold w;
               (now, w2) = datetime_now w1;
               is_time_valid =
                 (not_valid_before certificate \<le> now \<and> now \<le> not_valid_after certificate);
               (info, manager, w3) =
                 (case crl_manager mon of
                    Some m \<Rightarrow>
                      if is_time_valid
                      then (case check_certificate_revocation rt certificate m w2 of
                              (rs, m', w') \<Rightarrow> (Some rs, Some m', w'))
                      else (None, Some m, w2)
                  | None \<Rightarrow> (None, None, w2));
               revoked = (case info of Some rs \<Rightarrow> rs_is_revoked rs | None \<Rightarrow> False)
           in Inr (\<lparr>status_name = name cert_config,
                     status_cert_path = cert_path cert_config,
                     is_valid = (is_time_valid \<and> \<not> revoked),
                     expires_at = Some expires,
                     days_until_expiry = Some days,
                     needs_renewal = (if revoked then True else needs),
                     status_renewal_threshold_days = renewal_threshold,
                     renewal_reason = reason,
                     is_revoked = revoked,
                     revocation_info = info,
                     error_message = None\<rparr>,
                   mon\<lparr>crl_manager := manager\<rparr>, w3)))"

definition check_certificate_status ::
  "Runtime \<Rightarrow> CertificateMonitor \<Rightarrow> CertificateConfig \<Rightarrow> World
     \<Rightarrow> py_exception + (CertificateStatus \<times> CertificateMonitor \<times> World)" where
  "check_certificate_status rt mon cert_config w =
     (case load_certificate rt (cert_path cert_config) w of
        None \<Rightarrow>
          (case error_status mon cert_config ''Failed to load certificate'' of
             Inl e \<Rightarrow> Inl e
           | Inr status \<Rightarrow> Inr (status, mon, w))
      | Some certificate \<Rightarrow>
          (case check_loaded_certificate rt mon cert_config certificate w of
             Inr result \<Rightarrow> Inr result
           | Inl e \<Rightarrow>
               (case error_status mon cert_config
                       (''Error checking certificate: '' @ str_of_exception e) of
                  Inl e' \<Rightarrow> Inl e'
                | Inr status \<Rightarrow> Inr (status, mon, w))))"

fun check_all_certificates ::
  "Runtime \<Rightarrow> CertificateMonitor \<Rightarrow> CertificateConfig list \<Rightarrow> World
     \<Rightarrow> py_exception + (CertificateStatus list \<times> CertificateMonitor \<times> World)" where
  "check_all_certificates rt mon [] w = Inr ([], mon, w)"
| "check_all_certificates rt mon (cert_config # rest) w =
     (case check_certificate_status rt mon cert_config w of
        Inl e \<Rightarrow> Inl e
      | Inr (status, mon', w') \<Rightarrow>
          (case check_all_certificates rt mon' rest w' of
             Inl e \<Rightarrow> Inl e
           | Inr (statuses, mon'', w'') \<Rightarrow> Inr (status # statuses, mon'', w'')))"

section \<open>est\_client.py\<close>

text \<open>
  A \<^verbatim>\<open>try\<close> block of file operations: they run in order, the first one that raises ends
  the block, and the world keeps what was done before. The result tells whether all of
  them went through.
\<close>

fun attempt :: "(World \<Rightarrow> World option) list \<Rightarrow> World \<Rightarrow> bool \<times> World" where
  "attempt [] w = (True, w)"
| "attempt (f # fs) w = (case f w of None \<Rightarrow> (False, w) | Some w' \<Rightarrow> attempt fs w')"

definition os_makedirs_for :: "string \<Rightarrow> World \<Rightarrow> World option" where
  "os_makedirs_for p w = (if makedirs_fails w p then None else Some w)"

definition os_chmod :: "string \<Rightarrow> World \<Rightarrow> World option" where
  "os_chmod p w = (if chmod_fails w p then None else Some w)"

text \<open>
  The client keeps the configuration and the TLS setting of its session. \<open>est_url\<close> is
  \<^verbatim>\<open>_get_est_url\<close>, the address of an EST operation under the configured CA URL.
\<close>

record ESTClient =
  est_config :: StepCAConfig
  est_session_verify :: verify
  est_url :: "string \<Rightarrow> string"

definition ESTClient_init :: "StepCAConfig \<Rightarrow> (string \<Rightarrow> string) \<Rightarrow> ESTClient" where
  "ESTClient_init step_config url_of =
     \<lparr>est_config = step_config,
      est_session_verify =
        (case est_ca_bundle step_config of
           Some bundle \<Rightarrow>
             if bundle \<noteq> [] then VerifyCA bundle
             else if root_cert_path step_config \<noteq> [] then VerifyCA (root_cert_path step_config)
             else VerifyDefault
         | None \<Rightarrow>
             if root_cert_path step_config \<noteq> [] then VerifyCA (root_cert_path step_config)
             else VerifyDefault),
      est_url = url_of\<rparr>"

text \<open>
  \<^verbatim>\<open>enroll_certificate\<close>: every exception of the body is caught and turned into the result
  \<open>False\<close>: the signing request that cannot be built, the request that fails, and each of
  the file operations after an answer 200.
\<close>

definition est_enroll_certificate ::
  "Runtime \<Rightarrow> ESTClient \<Rightarrow> CertificateConfig \<Rightarrow> string \<Rightarrow> string \<Rightarrow> World \<Rightarrow> bool \<times> World" where
  "est_enroll_certificate rt client cert_config output_cert_path output_key_path w =
     (if generate_csr_raises rt (subject cert_config) (sans cert_config) then (False, w)
      else
        (let key_pem = rsa_key w (length (requests w));
             (response, w1) =
               send_request ESTSession ''POST'' (est_session_verify client)
                 (est_url client ''simpleenroll'') w
         in case response of
              RequestException \<Rightarrow> (False, w1)
            | Response status content \<Rightarrow>
                if status = 200 then
                  attempt [os_makedirs_for output_cert_path,
                           os_makedirs_for output_key_path,
                           write_file output_cert_path content,
                           write_file output_key_path key_pem,
                           os_chmod output_cert_path,
                           os_chmod output_key_path] w1
                else (False, w1)))"

text \<open>
  \<^verbatim>\<open>renew_certificate\<close> of the EST client: after an answer 200 it writes the backup of the
  certificate, the new certificate and the new key, in this order.
\<close>

definition est_renew_certificate ::
  "Runtime \<Rightarrow> ESTClient \<Rightarrow> CertificateConfig \<Rightarrow> World \<Rightarrow> bool \<times> World" where
  "est_renew_certificate rt client cert_config w =
     (case files w (cert_path cert_config) of
        None \<Rightarrow>
          est_enroll_certificate rt client cert_config
            (cert_path cert_config) (key_path cert_config) w
      | Some current_cert_data \<Rightarrow>
          if generate_csr_raises rt (subject cert_config) (sans cert_config) then (False, w)
          else
            (let key_pem = rsa_key w (length (requests w));
                 (response, w1) =
                   send_request ESTSession ''POST'' (est_session_verify client)
                     (est_url client ''simplereenroll'') w
             in case response of
                  RequestException \<Rightarrow> (False, w1)
                | Response status content \<Rightarrow>
                    if status = 200 then
                      attempt [write_file (cert_path cert_config @ ''.backup'') current_cert_data,
                               write_file (cert_path cert_config) content,
                               write_file (key_path cert_config) key_pem,
                               os_chmod (cert_path cert_config),
                               os_chmod (key_path cert_config)] w1
                    else (False, w1)))"

section \<open>step\_ca\_client.py\<close>

record StepCAClient =
  client_config :: StepCAConfig
  est_client :: "ESTClient option"
  step_cli_path :: "string option"

definition upper :: "string \<Rightarrow> string" where
  "upper s = map (\<lambda>c. if 97 \<le> (of_char c :: nat) \<and> (of_char c :: nat) \<le> 122
                        then char_of ((of_char c :: nat) - 32) else c) s"

definition uses_est :: "StepCAConfig \<Rightarrow> bool" where
  "uses_est step_config = (upper (protocol step_config) = ''EST'')"

text \<open>
  \<^verbatim>\<open>StepCAClient.__init__\<close>; \<open>found_step\<close> is the executable that \<^verbatim>\<open>_find_step_cli\<close>
  finds. With the EST protocol there is no executable.
\<close>

definition StepCAClient_init ::
  "StepCAConfig \<Rightarrow> (string \<Rightarrow> string) \<Rightarrow> string \<Rightarrow> StepCAClient" where
  "StepCAClient_init step_config url_of found_step =
     (if uses_est step_config
      then \<lparr>client_config = step_config,
            est_client = Some (ESTClient_init step_config url_of),
            step_cli_path = None\<rparr>
      else \<lparr>client_config = step_config, est_client = None, step_cli_path = Some found_step\<rparr>)"

text \<open>
  \<^verbatim>\<open>_run_step_command\<close>. Without an executable \<^verbatim>\<open>subprocess.run\<close> raises, which the
  function reports as a failed command; a timeout is a failed command of the tool.
\<close>

definition run_step_command ::
  "StepCAClient \<Rightarrow> string list \<Rightarrow> string option \<Rightarrow> World \<Rightarrow> step_result \<times> World" where
  "run_step_command client args input_data w =
     (case step_cli_path client of
        None \<Rightarrow>
          (\<lparr>success = False, stdout = [], stderr = ''no executable'', files_after = files w\<rparr>, w)
      | Some path \<Rightarrow>
          (let result = step_cli w (length (commands w)) (path # args) input_data (files w)
           in (result, w\<lparr>commands := commands w @ [path # args], files := files_after result\<rparr>)))"

definition os_remove :: "string \<Rightarrow> World \<Rightarrow> World option" where
  "os_remove p w = (if path_exists w p then Some (w\<lparr>files := (files w)(p := None)\<rparr>) else None)"

text \<open>
  \<^verbatim>\<open>get_provisioner_token\<close>. The password goes into a temporary file whose name is passed
  to the tool, or through the standard input when the file cannot be written; the file is
  removed after the command.
\<close>

definition get_provisioner_token ::
  "StepCAClient \<Rightarrow> string \<Rightarrow> string list \<Rightarrow> World \<Rightarrow> string option \<times> World" where
  "get_provisioner_token client subj san_list w =
     (let args = [''ca'', ''token'', subj, ''--provisioner'', provisioner_name (client_config client)]
                 @ concat (map (\<lambda>san. [''--san'', san]) san_list);
          password = (case provisioner_password (client_config client) of
                        None \<Rightarrow> [] | Some pw \<Rightarrow> pw);
          temp = tempfile_name w (length (commands w));
          (args', input_data, temp_file, w1) =
            (if password = [] then (args, None, None, w)
             else (case write_file temp password w of
                     Some w' \<Rightarrow> (args @ [''--password-file'', temp], None, Some temp, w')
                   | None \<Rightarrow> (args @ [''--password-file'', ''-''], Some password, None, w)));
          (result, w2) = run_step_command client args' input_data w1;
          w3 = (case temp_file of
                  None \<Rightarrow> w2
                | Some t \<Rightarrow> (case os_remove t w2 of Some w' \<Rightarrow> w' | None \<Rightarrow> w2))
      in if success result then (Some (stdout result), w3) else (None, w3))"

definition request_certificate_jwk ::
  "StepCAClient \<Rightarrow> CertificateConfig \<Rightarrow> string \<Rightarrow> string \<Rightarrow> World \<Rightarrow> bool \<times> World" where
  "request_certificate_jwk client cert_config output_cert_path output_key_path w =
     (let (token, w1) = get_provisioner_token client (subject cert_config) (sans cert_config) w
      in case token of
           None \<Rightarrow> (False, w1)
         | Some tok \<Rightarrow>
             if tok = [] then (False, w1)
             else
               (let (result, w2) =
                      run_step_command client
                        [''ca'', ''certificate'', subject cert_config, output_cert_path,
                         output_key_path, ''--token'', tok, ''--force''] None w1
                in (success result, w2)))"

text \<open>After \<^verbatim>\<open>__init__\<close> a client of the EST protocol has its \<^verbatim>\<open>est_client\<close>.\<close>

definition request_certificate ::
  "Runtime \<Rightarrow> StepCAClient \<Rightarrow> CertificateConfig \<Rightarrow> string \<Rightarrow> string \<Rightarrow> World \<Rightarrow> bool \<times> World" where
  "request_certificate rt client cert_config output_cert_path output_key_path w =
     (if uses_est (client_config client)
      then (case est_client client of
              Some est \<Rightarrow>
                est_enroll_certificate rt est cert_config output_cert_path output_key_path w
            | None \<Rightarrow> (False, w))
      else request_certificate_jwk client cert_config output_cert_path output_key_path w)"

text \<open>\<^verbatim>\<open>shutil.copy2\<close>; \<open>None\<close> where it raises.\<close>

definition copy2 :: "string \<Rightarrow> string \<Rightarrow> World \<Rightarrow> World option" where
  "copy2 src dst w = (case files w src of None \<Rightarrow> None | Some d \<Rightarrow> write_file dst d w)"

text \<open>
  \<^verbatim>\<open>_renew_certificate_jwk\<close>: backup, renewal in place; on success the backups are
  removed, on failure they are copied back and a fresh certificate is requested. The
  handlers of the three \<^verbatim>\<open>try\<close> blocks around the file operations only log or pass.
\<close>

definition renew_certificate_jwk ::
  "Runtime \<Rightarrow> StepCAClient \<Rightarrow> CertificateConfig \<Rightarrow> World \<Rightarrow> bool \<times> World" where
  "renew_certificate_jwk rt client cert_config w =
     (if \<not> path_exists w (cert_path cert_config) then (False, w)
      else if \<not> path_exists w (key_path cert_config) then (False, w)
      else
        (let backup_cert_path = cert_path cert_config @ ''.backup'';
             backup_key_path = key_path cert_config @ ''.backup'';
             w1 = snd (attempt [copy2 (cert_path cert_config) backup_cert_path,
                                copy2 (key_path cert_config) backup_key_path] w);
             (result, w2) =
               run_step_command client
                 [''ca'', ''renew'', cert_path cert_config, key_path cert_config, ''--force'']
                 None w1
         in if success result
            then (True, snd (attempt [os_remove backup_cert_path, os_remove backup_key_path] w2))
            else
              (let w3 = snd (attempt [copy2 backup_cert_path (cert_path cert_config),
                                      copy2 backup_key_path (key_path cert_config)] w2)
               in request_certificate rt client cert_config
                    (cert_path cert_config) (key_path cert_config) w3)))"

definition renew_certificate ::
  "Runtime \<Rightarrow> StepCAClient \<Rightarrow> CertificateConfig \<Rightarrow> World \<Rightarrow> bool \<times> World" where
  "renew_certificate rt client cert_config w =
     (if uses_est (client_config client)
      then (case est_client client of
              Some est \<Rightarrow> est_renew_certificate rt est cert_config w
            | None \<Rightarrow> (False, w))
      else renew_certificate_jwk rt client cert_config w)"


section \<open>renewal\_service.py\<close>

record CertificateRenewalService =
  service_cfg :: ServiceConfig
  monitor :: CertificateMonitor
  step_client :: StepCAClient




section \<open>A concrete installation\<close>

text \<open>
  One certificate authority with two CRL sources and one managed certificate, used to run
  the definitions above on explicit inputs.
\<close>

definition url_a :: string where
  "url_a = ''https://ca.example/a.crl''"

definition url_b :: string where
  "url_b = ''https://ca.example/b.crl''"

definition ex_crl_a :: CertificateRevocationList where
  "ex_crl_a = \<lparr>issuer = ''CN=Example CA'', last_update_utc = 0, next_update_utc = None,
     revoked_certificates =
       [\<lparr>rc_serial_number = 4660, revocation_date_utc = 1000, crl_reason = Some ''key_compromise''\<rparr>]\<rparr>"

definition ex_crl_b :: CertificateRevocationList where
  "ex_crl_b = \<lparr>issuer = ''CN=Example CA'', last_update_utc = 0, next_update_utc = None,
     revoked_certificates =
       [\<lparr>rc_serial_number = 4660, revocation_date_utc = 2000, crl_reason = None\<rparr>]\<rparr>"

definition ex_crl_empty :: CertificateRevocationList where
  "ex_crl_empty = \<lparr>issuer = ''CN=Example CA'', last_update_utc = 0, next_update_utc = None,
     revoked_certificates = []\<rparr>"

definition ex_cert :: Certificate where
  "ex_cert = \<lparr>not_valid_before = 900 * one_day, not_valid_after = 1010 * one_day + 5,
     serial_number = 4660, crl_distribution_points = [url_b]\<rparr>"

text \<open>A certificate that expired five days before the clock of the world starts.\<close>

definition ex_expired_cert :: Certificate where
  "ex_expired_cert = \<lparr>not_valid_before = 900 * one_day, not_valid_after = 995 * one_day,
     serial_number = 4661, crl_distribution_points = []\<rparr>"

definition ex_rt :: Runtime where
  "ex_rt = \<lparr>load_pem_x509_crl =
              (\<lambda>b. if b = ''crl-a'' then Some ex_crl_a
                    else if b = ''crl-b'' then Some ex_crl_b
                    else if b = ''crl-empty'' then Some ex_crl_empty
                    else None),
            load_der_x509_crl = (\<lambda>b. None),
            load_pem_x509_certificate =
              (\<lambda>b. if b = ''cert-1'' then Some ex_cert
                    else if b = ''cert-2'' then Some ex_expired_cert
                    else None),
            load_der_x509_certificate = (\<lambda>b. None),
            get_crl_file_path = (\<lambda>dir url. dir @ ''/'' @ url),
            set_iteration = remdups,
            generate_csr_raises = (\<lambda>subj names. subj = [])\<rparr>"

text \<open>The same runtime with a hash seed under which the set is walked the other way round.\<close>

definition ex_rt_rev :: Runtime where
  "ex_rt_rev = ex_rt\<lparr>set_iteration := (\<lambda>xs. rev (remdups xs))\<rparr>"

definition ex_step_config :: StepCAConfig where
  "ex_step_config = \<lparr>ca_url = ''https://ca.example:9000'', provisioner_name = ''admin'',
     provisioner_password = None, root_cert_path = ''/ca/root.crt'', protocol = ''EST'',
     est_ca_bundle = None, crl_enabled = True, crl_urls = Some [url_a],
     crl_cache_dir = ''certs/crl''\<rparr>"

text \<open>
  A world whose clock starts 1000 days after the epoch and advances one second per reading,
  whose network serves both CRLs, and whose \<^verbatim>\<open>step\<close> tool always fails without touching a
  file.
\<close>

definition ex_world :: World where
  "ex_world = \<lparr>clock = (\<lambda>n. 1000 * one_day + int n * 1000000),
     reads = 0,
     env_ca_bundle = None,
     http = (\<lambda>n url. if url = url_a then Response 200 ''crl-a''
                       else if url = url_b then Response 200 ''crl-b''
                       else RequestException),
     requests = [],
     files = [''/ca/root.crt'' \<mapsto> ''root'', ''/certs/web.crt'' \<mapsto> ''cert-1'',
              ''/certs/web.key'' \<mapsto> ''key-1''],
     makedirs_fails = (\<lambda>p. False),
     write_fails = (\<lambda>p. False),
     chmod_fails = (\<lambda>p. False),
     step_cli = (\<lambda>n args input fs.
        \<lparr>success = False, stdout = [], stderr = ''failed'', files_after = fs\<rparr>),
     commands = [],
     tempfile_name = (\<lambda>n. ''/tmp/tmp.pwd''),
     rsa_key = (\<lambda>n. ''key-2'')\<rparr>"

text \<open>
  The managed certificate as an object of the class \<^verbatim>\<open>CertificateConfig\<close>: it asks for
  renewal at 50 percent of the lifetime and has no attribute \<^verbatim>\<open>renewal_threshold_days\<close>.
\<close>

definition ex_cert_config :: CertificateConfig where
  "ex_cert_config = \<lparr>name = ''web'', cert_path = ''/certs/web.crt'', key_path = ''/certs/web.key'',
     renewal_threshold_percent = Some 50, subject = ''web.example'', sans = [],
     renewal_threshold_days = NoAttribute\<rparr>"

text \<open>The same description in an object that carries the attribute, with 30 days.\<close>

definition ex_cert_config_days :: CertificateConfig where
  "ex_cert_config_days = ex_cert_config\<lparr>renewal_threshold_days := Days 30\<rparr>"

definition ex_service_config :: ServiceConfig where
  "ex_service_config = \<lparr>default_renewal_threshold_days = None,
     emergency_renewal_threshold_days = None, warning_threshold_days = None,
     step_ca = ex_step_config, certificates = [ex_cert_config]\<rparr>"

text \<open>The same world in a process whose environment names a CA bundle of its own.\<close>

definition ex_world_env :: World where
  "ex_world_env = ex_world\<lparr>env_ca_bundle := Some ''/etc/ssl/corporate.pem''\<rparr>"

text \<open>A configuration without a root certificate.\<close>

definition ex_unpinned_config :: StepCAConfig where
  "ex_unpinned_config = ex_step_config\<lparr>root_cert_path := []\<rparr>"

text \<open>The manager of the installation, as its constructor leaves it.\<close>

definition ex_m0 :: CRLManager where
  "ex_m0 = CRLManager_init ex_step_config ex_world"

text \<open>
  The world with the network down, after an earlier process has left the CRL of the first
  source in the cache directory: a valid CRL that revokes no certificate.
\<close>

definition ex_world_offline :: World where
  "ex_world_offline = ex_world\<lparr>http := (\<lambda>n target. RequestException),
     files := (files ex_world)(''certs/crl/'' @ url_a \<mapsto> ''crl-empty'')\<rparr>"

text \<open>The monitor of the installation, with the thresholds of the service left at their defaults.\<close>

definition ex_monitor :: CertificateMonitor where
  "ex_monitor = CertificateMonitor_init (Some ex_step_config) (Some ex_service_config) ex_world"




text \<open>
  The clients of the installation: the EST client, with the addresses that
  \<^verbatim>\<open>_get_est_url\<close> derives from the CA URL, and the client of the service around it.
\<close>

definition ex_est_url :: "string \<Rightarrow> string" where
  "ex_est_url operation = ''https://ca.example:8443/.well-known/est/'' @ operation"

definition ex_est_client :: ESTClient where
  "ex_est_client = ESTClient_init ex_step_config ex_est_url"

definition ex_client :: StepCAClient where
  "ex_client = StepCAClient_init ex_step_config ex_est_url ''/usr/bin/step''"

text \<open>The world in which the CA answers a re-enrollment with a new certificate.\<close>

definition ex_world_renewing :: World where
  "ex_world_renewing = ex_world\<lparr>http := (\<lambda>n target.
       if target = ex_est_url ''simplereenroll'' then Response 200 ''cert-3''
       else http ex_world n target)\<rparr>"

text \<open>The same world with a key file that the process cannot open for writing.\<close>

definition ex_world_key_readonly :: World where
  "ex_world_key_readonly = ex_world_renewing\<lparr>write_fails := (\<lambda>p. p = ''/certs/web.key'')\<rparr>"






text \<open>
  A first refresh of the configured source in the installation; and, after two readings
  of the clock by the rest of the process, a refresh of the other source.
\<close>

definition ex_first :: "CertificateRevocationList option \<times> CRLManager \<times> World" where
  "ex_first = refresh_crl ex_rt url_a ex_m0 ex_world"

definition ex_later :: "CertificateRevocationList option \<times> CRLManager \<times> World" where
  "ex_later = refresh_crl ex_rt url_b (fst (snd ex_first))
     ((snd (snd ex_first))\<lparr>reads := Suc (Suc (reads (snd (snd ex_first))))\<rparr>)"

section \<open>Notions used in the statements\<close>

text \<open>The downloads that the manager's session has sent to one URL.\<close>

definition requests_to :: "string \<Rightarrow> World \<Rightarrow> http_request list" where
  "requests_to crl_url w = filter (\<lambda>r. via r = CRLSession \<and> url r = crl_url) (requests w)"

text \<open>
  A call of \<^verbatim>\<open>refresh_crl\<close> in this state goes to the network and the download
  delivers data.
\<close>

definition downloads_data :: "string \<Rightarrow> CRLManager \<Rightarrow> World \<Rightarrow> bool" where
  "downloads_data crl_url m w =
     (\<not> recently_downloaded m crl_url (fst (datetime_now w)) \<and>
      fst (download_crl crl_url m (snd (datetime_now w))) \<noteq> None)"

text \<open>The same, with a download that fails.\<close>

definition download_fails :: "string \<Rightarrow> CRLManager \<Rightarrow> World \<Rightarrow> bool" where
  "download_fails crl_url m w =
     (\<not> recently_downloaded m crl_url (fst (datetime_now w)) \<and>
      fst (download_crl crl_url m (snd (datetime_now w))) = None)"

text \<open>
  The manager holds the CRL \<open>crl\<close> for the URL in memory and has recorded the instant
  \<open>t0\<close> as the time of its download.
\<close>

definition fresh_copy ::
  "string \<Rightarrow> instant \<Rightarrow> CertificateRevocationList \<Rightarrow> CRLManager \<Rightarrow> bool" where
  "fresh_copy crl_url t0 crl m =
     (last_download_time m crl_url = Some t0 \<and> crl_cache m crl_url = Some crl)"

text \<open>
  Every reading of the clock with a number from \<open>lo\<close> to \<open>hi\<close> is less than 60 seconds
  after \<open>t0\<close>.
\<close>

definition within_sixty_seconds :: "World \<Rightarrow> instant \<Rightarrow> nat \<Rightarrow> nat \<Rightarrow> bool" where
  "within_sixty_seconds w t0 lo hi =
     (\<forall>i. lo \<le> i \<and> i \<le> hi \<longrightarrow> clock w i - t0 < sixty_seconds)"

text \<open>The world after the clock was read and the download was tried.\<close>

definition after_download :: "string \<Rightarrow> CRLManager \<Rightarrow> World \<Rightarrow> World" where
  "after_download u m w =
     w\<lparr>reads := Suc (reads w),
       requests := requests w @
          [\<lparr>via = CRLSession, http_method = ''GET'', url = u,
            tls_verify = request_verify w (session_verify m)\<rparr>]\<rparr>"

text \<open>The ladder of \<^verbatim>\<open>check_certificate_expiry\<close>, for a number of days and a threshold.\<close>

definition urgency :: "ServiceConfig option \<Rightarrow> int \<Rightarrow> int \<Rightarrow> string" where
  "urgency sc days threshold =
     (case sc of
        None \<Rightarrow> if days \<le> threshold then ''normal'' else ''valid''
      | Some c \<Rightarrow>
          if days \<le> (case emergency_renewal_threshold_days c of Some d \<Rightarrow> d | None \<Rightarrow> 7)
            then ''emergency''
          else if days \<le> (case warning_threshold_days c of Some d \<Rightarrow> d | None \<Rightarrow> 14)
            then (if days \<le> threshold then ''warning'' else ''approaching'')
          else (if days \<le> threshold then ''normal'' else ''valid''))"


text \<open>
  The revocation status that the monitor obtains for a loaded certificate: it asks the
  manager, if it has one, after its two readings of the clock, and only for a certificate
  that the second reading finds inside its validity period.
\<close>

definition monitor_revocation_info ::
  "Runtime \<Rightarrow> CertificateMonitor \<Rightarrow> Certificate \<Rightarrow> World \<Rightarrow> RevocationStatus option" where
  "monitor_revocation_info rt mon c w =
     (case crl_manager mon of
        None \<Rightarrow> None
      | Some m \<Rightarrow>
          if not_valid_before c \<le> clock w (Suc (reads w)) \<and>
             clock w (Suc (reads w)) \<le> not_valid_after c
          then Some (fst (check_certificate_revocation rt c m (w\<lparr>reads := Suc (Suc (reads w))\<rparr>)))
          else None)"

definition monitor_revoked :: "Runtime \<Rightarrow> CertificateMonitor \<Rightarrow> Certificate \<Rightarrow> World \<Rightarrow> bool" where
  "monitor_revoked rt mon c w =
     (case monitor_revocation_info rt mon c w of Some rs \<Rightarrow> rs_is_revoked rs | None \<Rightarrow> False)"

text \<open>The manager and the world that this lookup leaves behind.\<close>

definition monitor_after ::
  "Runtime \<Rightarrow> CertificateMonitor \<Rightarrow> Certificate \<Rightarrow> World \<Rightarrow> CRLManager option \<times> World" where
  "monitor_after rt mon c w =
     (case crl_manager mon of
        None \<Rightarrow> (None, w\<lparr>reads := Suc (Suc (reads w))\<rparr>)
      | Some m \<Rightarrow>
          if not_valid_before c \<le> clock w (Suc (reads w)) \<and>
             clock w (Suc (reads w)) \<le> not_valid_after c
          then snd (case check_certificate_revocation rt c m (w\<lparr>reads := Suc (Suc (reads w))\<rparr>) of
                      (rs, m', w') \<Rightarrow> (rs, Some m', w'))
          else (Some m, w\<lparr>reads := Suc (Suc (reads w))\<rparr>))"

text \<open>
  What no action of the process changes in the world: the values the clock is going to
  show, the answers of the network and the environment; and the number of readings of
  the clock does not go down.
\<close>

definition same_script :: "World \<Rightarrow> World \<Rightarrow> bool" where
  "same_script w w' =
     (clock w' = clock w \<and> http w' = http w \<and> env_ca_bundle w' = env_ca_bundle w \<and>
      reads w \<le> reads w')"


text \<open>
  The loop of \<^verbatim>\<open>check_certificate_revocation\<close> has gone through these URLs without finding
  the serial number of the certificate in any of their CRLs; the result is the state that
  the refreshes have left.
\<close>

fun passed_over ::
  "Runtime \<Rightarrow> Certificate \<Rightarrow> string list \<Rightarrow> CRLManager \<Rightarrow> World \<Rightarrow> (CRLManager \<times> World) option" where
  "passed_over rt certificate [] m w = Some (m, w)"
| "passed_over rt certificate (crl_url # rest) m w =
     (case refresh_crl rt crl_url m w of
        (None, m', w') \<Rightarrow> passed_over rt certificate rest m' w'
      | (Some crl, m', w') \<Rightarrow>
          (case find_revoked crl (serial_number certificate) of
             Some revoked_cert \<Rightarrow> None
           | None \<Rightarrow> passed_over rt certificate rest m' w'))"

section \<open>The ways through a refresh\<close>

lemma download_crl_world:
  "snd (download_crl u m w) =
     w\<lparr>requests := requests w @
          [\<lparr>via = CRLSession, http_method = ''GET'', url = u,
            tls_verify = request_verify w (session_verify m)\<rparr>]\<rparr>"
  by (simp add: download_crl_def send_request_def split: http_response.splits)

lemma save_crl_world:
  "\<exists>fs. snd (save_crl_to_file d p w) = w\<lparr>files := fs\<rparr>"
proof (cases "makedirs_fails w p \<or> write_fails w p")
  case True
  then have "snd (save_crl_to_file d p w) = w"
    by (auto simp: save_crl_to_file_def write_file_def)
  then have "snd (save_crl_to_file d p w) = w\<lparr>files := files w\<rparr>" by simp
  then show ?thesis by (intro exI [of _ "files w"])
next
  case False
  then have "snd (save_crl_to_file d p w) = w\<lparr>files := (files w)(p \<mapsto> d)\<rparr>"
    by (simp add: save_crl_to_file_def write_file_def)
  then show ?thesis by (intro exI [of _ "(files w)(p \<mapsto> d)"])
qed

lemma load_cached_file_cases:
  "load_cached_file rt u p m w = (None, m, w) \<or>
   (\<exists>crl. load_crl_from_file rt p w = Some crl \<and> crl_truthy crl \<and>
      load_cached_file rt u p m w = (Some crl, m\<lparr>crl_cache := (crl_cache m)(u \<mapsto> crl)\<rparr>, w))"
  by (simp add: load_cached_file_def split: option.splits)

text \<open>The three ways through \<^verbatim>\<open>refresh_crl\<close>.\<close>

lemma refresh_crl_ways:
  "recently_downloaded m u (fst (datetime_now w)) \<or> download_fails u m w \<or> downloads_data u m w"
  by (auto simp: download_fails_def downloads_data_def)

lemma refresh_crl_recent:
  assumes "recently_downloaded m u (fst (datetime_now w))"
  shows "refresh_crl rt u m w = (crl_cache m u, m, w\<lparr>reads := Suc (reads w)\<rparr>)"
  using assms by (simp add: refresh_crl_def datetime_now_def)

lemma download_after_clock:
  "snd (download_crl u m (w\<lparr>reads := Suc (reads w)\<rparr>)) = after_download u m w"
  by (simp add: download_crl_world after_download_def request_verify_def)

lemma refresh_crl_failed:
  assumes "download_fails u m w"
  shows "refresh_crl rt u m w =
     (case crl_cache m u of
        Some crl \<Rightarrow> (Some crl, m, after_download u m w)
      | None \<Rightarrow> load_cached_file rt u (get_crl_file_path rt (crl_cache_dir (config m)) u) m
                  (after_download u m w))"
proof -
  obtain d w2 where D: "download_crl u m (w\<lparr>reads := Suc (reads w)\<rparr>) = (d, w2)"
    by (cases "download_crl u m (w\<lparr>reads := Suc (reads w)\<rparr>)") auto
  from download_after_clock [of u m w] D have w2: "w2 = after_download u m w" by simp
  from assms D have "d = None" and "\<not> recently_downloaded m u (clock w (reads w))"
    by (simp_all add: download_fails_def datetime_now_def)
  with D w2 show ?thesis
    by (simp add: refresh_crl_def datetime_now_def)
qed

lemma refresh_crl_downloaded:
  assumes "downloads_data u m w"
  shows "\<exists>data w3 m1.
     fst (download_crl u m (snd (datetime_now w))) = Some data \<and>
     w3 = snd (save_crl_to_file data (get_crl_file_path rt (crl_cache_dir (config m)) u)
                 (after_download u m w)) \<and>
     m1 = m\<lparr>last_download_time := (last_download_time m)(u \<mapsto> clock w (reads w))\<rparr> \<and>
     refresh_crl rt u m w =
       (case parse_crl rt data of
          Some crl \<Rightarrow>
            (Some crl,
             m1\<lparr>crl_cache := (crl_cache m1)(u \<mapsto> crl),
                crl_info_cache := (crl_info_cache m1)(u \<mapsto> fst (get_crl_info rt crl u m1 w3))\<rparr>,
             w3\<lparr>reads := Suc (reads w3)\<rparr>)
        | None \<Rightarrow> load_cached_file rt u (get_crl_file_path rt (crl_cache_dir (config m)) u) m1 w3)"
proof -
  obtain d w2 where D: "download_crl u m (w\<lparr>reads := Suc (reads w)\<rparr>) = (d, w2)"
    by (cases "download_crl u m (w\<lparr>reads := Suc (reads w)\<rparr>)") auto
  from download_after_clock [of u m w] D have w2: "w2 = after_download u m w" by simp
  from assms D obtain data where d: "d = Some data"
    and nr: "\<not> recently_downloaded m u (clock w (reads w))"
    by (auto simp: downloads_data_def datetime_now_def)
  obtain b w3 where S: "save_crl_to_file data (get_crl_file_path rt (crl_cache_dir (config m)) u) w2 = (b, w3)"
    by (cases "save_crl_to_file data (get_crl_file_path rt (crl_cache_dir (config m)) u) w2") auto
  show ?thesis
    using D d nr S w2
    by (simp add: refresh_crl_def datetime_now_def get_crl_info_def split: option.splits)
qed

text \<open>The five outcomes of a refresh, as a case distinction.\<close>

lemma refresh_crl_cases [consumes 1, case_names recent cached disk parsed unparsed]:
  assumes R: "refresh_crl rt u m w = (r, m', w')"
  obtains
    (recent) "recently_downloaded m u (clock w (reads w))"
      "r = crl_cache m u" "m' = m" "w' = w\<lparr>reads := Suc (reads w)\<rparr>"
  | (cached) c where "download_fails u m w" "crl_cache m u = Some c"
      "r = Some c" "m' = m" "w' = after_download u m w"
  | (disk) "download_fails u m w" "crl_cache m u = None"
      "load_cached_file rt u (get_crl_file_path rt (crl_cache_dir (config m)) u) m
         (after_download u m w) = (r, m', w')"
  | (parsed) data crl fs info where "downloads_data u m w"
      "fst (download_crl u m (snd (datetime_now w))) = Some data"
      "parse_crl rt data = Some crl" "r = Some crl"
      "m' = m\<lparr>last_download_time := (last_download_time m)(u \<mapsto> clock w (reads w)),
              crl_cache := (crl_cache m)(u \<mapsto> crl),
              crl_info_cache := (crl_info_cache m)(u \<mapsto> info)\<rparr>"
      "w' = (after_download u m w)\<lparr>reads := Suc (Suc (reads w)), files := fs\<rparr>"
  | (unparsed) data fs where "downloads_data u m w"
      "fst (download_crl u m (snd (datetime_now w))) = Some data"
      "parse_crl rt data = None"
      "load_cached_file rt u (get_crl_file_path rt (crl_cache_dir (config m)) u)
         (m\<lparr>last_download_time := (last_download_time m)(u \<mapsto> clock w (reads w))\<rparr>)
         ((after_download u m w)\<lparr>files := fs\<rparr>) = (r, m', w')"
proof -
  let ?p = "get_crl_file_path rt (crl_cache_dir (config m)) u"
  let ?w2 = "after_download u m w"
  from refresh_crl_ways [of m u w] show ?thesis
  proof (elim disjE)
    assume A: "recently_downloaded m u (fst (datetime_now w))"
    from refresh_crl_recent [OF A, of rt] R A show ?thesis
      by (intro recent) (simp_all add: datetime_now_def)
  next
    assume F: "download_fails u m w"
    show ?thesis
    proof (cases "crl_cache m u")
      case (Some c)
      with refresh_crl_failed [OF F, of rt] R F show ?thesis
        by (intro cached [of c]) simp_all
    next
      case None
      with refresh_crl_failed [OF F, of rt] R F show ?thesis
        by (intro disk) simp_all
    qed
  next
    assume D: "downloads_data u m w"
    from refresh_crl_downloaded [OF D, of rt] obtain data w3 m1 where
      dl: "fst (download_crl u m (snd (datetime_now w))) = Some data" and
      w3: "w3 = snd (save_crl_to_file data ?p ?w2)" and
      m1: "m1 = m\<lparr>last_download_time := (last_download_time m)(u \<mapsto> clock w (reads w))\<rparr>" and
      E: "refresh_crl rt u m w =
           (case parse_crl rt data of
              Some crl \<Rightarrow>
                (Some crl,
                 m1\<lparr>crl_cache := (crl_cache m1)(u \<mapsto> crl),
                    crl_info_cache := (crl_info_cache m1)(u \<mapsto> fst (get_crl_info rt crl u m1 w3))\<rparr>,
                 w3\<lparr>reads := Suc (reads w3)\<rparr>)
            | None \<Rightarrow> load_cached_file rt u ?p m1 w3)"
      by blast
    from save_crl_world [of data ?p ?w2] w3 obtain fs where w3': "w3 = ?w2\<lparr>files := fs\<rparr>"
      by auto
    have rd: "reads ?w2 = Suc (reads w)" by (simp add: after_download_def)
    show ?thesis
    proof (cases "parse_crl rt data")
      case (Some crl)
      with E R w3' m1 D dl rd show ?thesis
        by (intro parsed [of data crl "fst (get_crl_info rt crl u m1 w3)" fs]) simp_all
    next
      case None
      with E R w3' m1 D dl show ?thesis
        by (intro unparsed [of data fs]) simp_all
    qed
  qed
qed

section \<open>The concrete installation at work\<close>

lemma ex_m0_fields:
  "session_verify ex_m0 = VerifyCA ''/ca/root.crt''" "config ex_m0 = ex_step_config"
  "crl_cache ex_m0 = Map.empty" "last_download_time ex_m0 = Map.empty"
  "crl_info_cache ex_m0 = Map.empty"
  by (simp_all add: ex_m0_def CRLManager_init_def ex_step_config_def ex_world_def path_exists_def)



lemma ex_monitor_fields:
  "service_config ex_monitor = Some ex_service_config"
  "crl_manager ex_monitor = Some ex_m0"
  by (simp_all add: ex_monitor_def CertificateMonitor_init_def ex_m0_def ex_step_config_def)

lemma refresh_crl_parsed:
  assumes "downloads_data u m w"
    and "fst (download_crl u m (snd (datetime_now w))) = Some data"
    and "parse_crl rt data = Some crl"
  shows "fst (refresh_crl rt u m w) = Some crl"
  using refresh_crl_downloaded [OF assms(1), of rt] assms(2,3) by auto

lemma check_crls_found_first:
  assumes "fst (refresh_crl rt u m w) = Some crl"
    and "find_revoked crl (serial_number c) = Some rc"
  shows "rs_is_revoked (fst (check_crls rt c (u # rest) m w)) \<and>
         crl_source (fst (check_crls rt c (u # rest) m w)) = Some u \<and>
         revocation_date (fst (check_crls rt c (u # rest) m w)) = Some (revocation_date_utc rc) \<and>
         revocation_reason (fst (check_crls rt c (u # rest) m w)) =
           Some (case crl_reason rc of None \<Rightarrow> ''Unspecified'' | Some r \<Rightarrow> r)"
proof -
  obtain r m' w' where R: "refresh_crl rt u m w = (r, m', w')"
    by (cases "refresh_crl rt u m w") auto
  from assms(2) have "crl_truthy crl"
    by (auto simp: find_revoked_def crl_truthy_def)
  with R assms show ?thesis
    by (simp add: revoked_status_def datetime_now_def)
qed

text \<open>The downloads of the concrete installation.\<close>

lemma ex_m0_not_recent: "\<not> recently_downloaded ex_m0 u t"
  by (simp add: recently_downloaded_def ex_m0_fields)

lemma ex_download_a:
  assumes "http w = http ex_world"
  shows "fst (download_crl url_a m w) = Some ''crl-a''"
  using assms by (simp add: download_crl_def send_request_def ex_world_def)

lemma ex_download_b:
  assumes "http w = http ex_world"
  shows "fst (download_crl url_b m w) = Some ''crl-b''"
  using assms by (simp add: download_crl_def send_request_def ex_world_def url_a_def url_b_def)

lemma ex_parse:
  "parse_crl ex_rt ''crl-a'' = Some ex_crl_a" "parse_crl ex_rt ''crl-b'' = Some ex_crl_b"
  "parse_crl ex_rt_rev ''crl-a'' = Some ex_crl_a" "parse_crl ex_rt_rev ''crl-b'' = Some ex_crl_b"
  by (simp_all add: parse_crl_def ex_rt_def ex_rt_rev_def)

lemma ex_first_refresh:
  assumes "http w = http ex_world"
  shows "fst (refresh_crl ex_rt url_a ex_m0 w) = Some ex_crl_a"
    and "fst (refresh_crl ex_rt_rev url_b ex_m0 w) = Some ex_crl_b"
    and "fst (refresh_crl ex_rt_rev url_a ex_m0 w) = Some ex_crl_a"
proof -
  have h: "http (snd (datetime_now w)) = http ex_world"
    using assms by (simp add: datetime_now_def)
  have A: "downloads_data url_a ex_m0 w"
    using ex_download_a [OF h] by (simp add: downloads_data_def ex_m0_not_recent)
  have B: "downloads_data url_b ex_m0 w"
    using ex_download_b [OF h] by (simp add: downloads_data_def ex_m0_not_recent)
  show "fst (refresh_crl ex_rt url_a ex_m0 w) = Some ex_crl_a"
    by (rule refresh_crl_parsed [OF A ex_download_a [OF h] ex_parse(1)])
  show "fst (refresh_crl ex_rt_rev url_b ex_m0 w) = Some ex_crl_b"
    by (rule refresh_crl_parsed [OF B ex_download_b [OF h] ex_parse(4)])
  show "fst (refresh_crl ex_rt_rev url_a ex_m0 w) = Some ex_crl_a"
    by (rule refresh_crl_parsed [OF A ex_download_a [OF h] ex_parse(3)])
qed

lemma ex_found:
  "find_revoked ex_crl_a (serial_number ex_cert) =
     Some \<lparr>rc_serial_number = 4660, revocation_date_utc = 1000, crl_reason = Some ''key_compromise''\<rparr>"
  "find_revoked ex_crl_b (serial_number ex_cert) =
     Some \<lparr>rc_serial_number = 4660, revocation_date_utc = 2000, crl_reason = None\<rparr>"
  by (simp_all add: find_revoked_def ex_crl_a_def ex_crl_b_def ex_cert_def)

lemma ex_collected: "collected_urls ex_m0 ex_cert = [url_a, url_b]"
  by (simp add: collected_urls_def ex_m0_fields ex_step_config_def ex_cert_def)

lemma ex_check_revocation:
  assumes "http w = http ex_world"
  shows "rs_is_revoked (fst (check_certificate_revocation ex_rt ex_cert ex_m0 w)) \<and>
         crl_source (fst (check_certificate_revocation ex_rt ex_cert ex_m0 w)) = Some url_a \<and>
         revocation_reason (fst (check_certificate_revocation ex_rt ex_cert ex_m0 w)) = Some ''key_compromise''"
proof -
  have "check_certificate_revocation ex_rt ex_cert ex_m0 w =
          check_crls ex_rt ex_cert [url_a, url_b] ex_m0 w"
    by (simp add: check_certificate_revocation_def ex_collected ex_m0_fields ex_step_config_def
        ex_rt_def url_a_def url_b_def)
  with check_crls_found_first [OF ex_first_refresh(1) [OF assms] ex_found(1), of "[url_b]"]
  show ?thesis by simp
qed

lemma ex_check_revocation_rev:
  assumes "http w = http ex_world"
  shows "rs_is_revoked (fst (check_certificate_revocation ex_rt_rev ex_cert ex_m0 w)) \<and>
         crl_source (fst (check_certificate_revocation ex_rt_rev ex_cert ex_m0 w)) = Some url_b \<and>
         revocation_reason (fst (check_certificate_revocation ex_rt_rev ex_cert ex_m0 w)) = Some ''Unspecified''"
proof -
  have "check_certificate_revocation ex_rt_rev ex_cert ex_m0 w =
          check_crls ex_rt_rev ex_cert [url_b, url_a] ex_m0 w"
    by (simp add: check_certificate_revocation_def ex_collected ex_m0_fields ex_step_config_def
        ex_rt_rev_def ex_rt_def url_a_def url_b_def)
  with check_crls_found_first [OF ex_first_refresh(2) [OF assms] ex_found(2), of "[url_a]"]
  show ?thesis by simp
qed

section \<open>What the manager leaves untouched\<close>

lemma same_script_refl: "same_script w w"
  by (simp add: same_script_def)

lemma same_script_trans: "same_script w w1 \<Longrightarrow> same_script w1 w2 \<Longrightarrow> same_script w w2"
  by (simp add: same_script_def)

lemma load_cached_file_world: "load_cached_file rt u p m w = (r, m', w') \<Longrightarrow> w' = w"
  using load_cached_file_cases [of rt u p m w] by auto

lemma refresh_crl_script:
  assumes "refresh_crl rt u m w = (r, m', w')"
  shows "same_script w w'"
  using assms
proof (cases rule: refresh_crl_cases)
  case recent
  then show ?thesis by (simp add: same_script_def)
next
  case (cached c)
  then show ?thesis by (simp add: same_script_def after_download_def)
next
  case disk
  from load_cached_file_world [OF disk(3)]
  have "w' = after_download u m w" .
  then show ?thesis by (simp add: same_script_def after_download_def)
next
  case (parsed data crl fs info)
  then show ?thesis by (simp add: same_script_def after_download_def)
next
  case (unparsed data fs)
  from load_cached_file_world [OF unparsed(4)]
  have "w' = (after_download u m w)\<lparr>files := fs\<rparr>" .
  then show ?thesis by (simp add: same_script_def after_download_def)
qed

lemma not_revoked_script: "not_revoked w = (rs, w') \<Longrightarrow> same_script w w'"
  by (auto simp: not_revoked_def datetime_now_def same_script_def)

lemma revoked_status_script: "revoked_status rc u w = (rs, w') \<Longrightarrow> same_script w w'"
  by (auto simp: revoked_status_def datetime_now_def same_script_def)

lemma check_crls_script: "check_crls rt c us m w = (rs, m', w') \<Longrightarrow> same_script w w'"
proof (induction us arbitrary: m w)
  case Nil
  then show ?case by (auto split: prod.splits dest: not_revoked_script)
next
  case (Cons u us)
  obtain r m1 w1 where R: "refresh_crl rt u m w = (r, m1, w1)"
    by (cases "refresh_crl rt u m w") auto
  note S = refresh_crl_script [OF R]
  show ?case
  proof (cases "\<exists>crl rc. r = Some crl \<and> crl_truthy crl \<and> find_revoked crl (serial_number c) = Some rc")
    case False
    with R Cons.prems have "check_crls rt c us m1 w1 = (rs, m', w')"
      by (auto split: option.splits if_splits)
    from same_script_trans [OF S Cons.IH [OF this]] show ?thesis .
  next
    case True
    then obtain crl rc where r: "r = Some crl" and T: "crl_truthy crl"
      and F: "find_revoked crl (serial_number c) = Some rc" by blast
    with R Cons.prems have "revoked_status rc u w1 = (rs, w')"
      by (auto split: prod.splits)
    from same_script_trans [OF S revoked_status_script [OF this]] show ?thesis .
  qed
qed

lemma check_revocation_script:
  "check_certificate_revocation rt c m w = (rs, m', w') \<Longrightarrow> same_script w w'"
  by (auto simp: check_certificate_revocation_def split: if_splits prod.splits
           dest: not_revoked_script check_crls_script)

section \<open>The loop over the CRL sources\<close>

text \<open>
  One turn of the loop either ends it with a revoked status or goes on with the next URL;
  the whole loop ends at the first URL of its list whose CRL has the serial number.
\<close>

lemma find_revoked_truthy: "find_revoked crl s = Some rc \<Longrightarrow> crl_truthy crl"
  by (auto simp: find_revoked_def crl_truthy_def)

lemma check_crls_hit:
  assumes "refresh_crl rt u m w = (Some crl, m1, w1)"
    and "find_revoked crl (serial_number c) = Some rc"
  shows "check_crls rt c (u # us) m w =
           (fst (revoked_status rc u w1), m1, snd (revoked_status rc u w1))"
  using assms find_revoked_truthy [OF assms(2)]
  by (simp split: prod.splits)

lemma check_crls_miss:
  assumes "refresh_crl rt u m w = (r, m1, w1)"
    and "case r of None \<Rightarrow> True | Some crl \<Rightarrow> find_revoked crl (serial_number c) = None"
  shows "check_crls rt c (u # us) m w = check_crls rt c us m1 w1"
    and "passed_over rt c (u # us) m w = passed_over rt c us m1 w1"
  using assms by (auto split: option.splits)

lemma revoked_status_revoked: "rs_is_revoked (fst (revoked_status rc u w))"
  "crl_source (fst (revoked_status rc u w)) = Some u"
  "snd (revoked_status rc u w) = w\<lparr>reads := Suc (reads w)\<rparr>"
  by (simp_all add: revoked_status_def datetime_now_def)

lemma not_revoked_not: "\<not> rs_is_revoked (fst (not_revoked w))"
  by (simp add: not_revoked_def datetime_now_def)

lemma check_crls_outcome:
  assumes "check_crls rt c order m w = (rs, m', w')"
  shows "if rs_is_revoked rs
         then \<exists>us u rest mu wu crl rc w1.
                order = us @ u # rest \<and> passed_over rt c us m w = Some (mu, wu) \<and>
                refresh_crl rt u mu wu = (Some crl, m', w1) \<and>
                find_revoked crl (serial_number c) = Some rc \<and>
                revoked_status rc u w1 = (rs, w')
         else \<exists>wn. passed_over rt c order m w = Some (m', wn) \<and> not_revoked wn = (rs, w')"
  using assms
proof (induction order arbitrary: m w)
  case Nil
  then have N: "not_revoked w = (rs, w')" and m: "m' = m"
    by (auto split: prod.splits)
  from N not_revoked_not [of w] have "\<not> rs_is_revoked rs" by simp
  with N m show ?case by simp
next
  case (Cons u order)
  obtain r m1 w1 where R: "refresh_crl rt u m w = (r, m1, w1)"
    by (cases "refresh_crl rt u m w") auto
  show ?case
  proof (cases "\<exists>crl rc. r = Some crl \<and> find_revoked crl (serial_number c) = Some rc")
    case True
    then obtain crl rc where r: "r = Some crl"
      and F: "find_revoked crl (serial_number c) = Some rc" by blast
    from check_crls_hit [OF R [unfolded r] F, of order] Cons.prems
    have E: "revoked_status rc u w1 = (rs, w')" and m: "m1 = m'"
      by (simp_all add: prod_eq_iff)
    from E revoked_status_revoked(1) [of rc u w1] have rev: "rs_is_revoked rs" by simp
    have "u # order = [] @ u # order \<and> passed_over rt c [] m w = Some (m, w) \<and>
          refresh_crl rt u m w = (Some crl, m', w1) \<and>
          find_revoked crl (serial_number c) = Some rc \<and> revoked_status rc u w1 = (rs, w')"
      using R r m F E by simp
    then have "\<exists>us v rest mu wu crl rc w1.
                u # order = us @ v # rest \<and> passed_over rt c us m w = Some (mu, wu) \<and>
                refresh_crl rt v mu wu = (Some crl, m', w1) \<and>
                find_revoked crl (serial_number c) = Some rc \<and>
                revoked_status rc v w1 = (rs, w')"
      by blast
    with rev show ?thesis by simp
  next
    case False
    then have miss: "case r of None \<Rightarrow> True | Some crl \<Rightarrow> find_revoked crl (serial_number c) = None"
      by (auto split: option.splits)
    note M = check_crls_miss [OF R miss, of order]
    from Cons.prems M(1) have "check_crls rt c order m1 w1 = (rs, m', w')" by simp
    note IH = Cons.IH [OF this]
    show ?thesis
    proof (cases "rs_is_revoked rs")
      case True
      with IH obtain us v rest mu wu crl rc w2 where
        O: "order = us @ v # rest" and P: "passed_over rt c us m1 w1 = Some (mu, wu)" and
        Q: "refresh_crl rt v mu wu = (Some crl, m', w2)" and
        F: "find_revoked crl (serial_number c) = Some rc" and
        E: "revoked_status rc v w2 = (rs, w')"
        by auto
      from check_crls_miss(2) [OF R miss, of us] P
      have P': "passed_over rt c (u # us) m w = Some (mu, wu)" by simp
      have "u # order = (u # us) @ v # rest \<and> passed_over rt c (u # us) m w = Some (mu, wu) \<and>
          refresh_crl rt v mu wu = (Some crl, m', w2) \<and>
          find_revoked crl (serial_number c) = Some rc \<and> revoked_status rc v w2 = (rs, w')"
        using O P' Q F E by simp
      then have "\<exists>us v rest mu wu crl rc w1.
                u # order = us @ v # rest \<and> passed_over rt c us m w = Some (mu, wu) \<and>
                refresh_crl rt v mu wu = (Some crl, m', w1) \<and>
                find_revoked crl (serial_number c) = Some rc \<and>
                revoked_status rc v w1 = (rs, w')"
        by blast
      with True show ?thesis by simp
    next
      case False
      with IH M(2) show ?thesis by simp
    qed
  qed
qed

lemma ex_rt_rev_ok: "set_iteration_ok ex_rt_rev" "set_iteration_ok ex_rt"
  by (simp_all add: set_iteration_ok_def ex_rt_rev_def ex_rt_def)

section \<open>The copy of a CRL inside the window of 60 seconds\<close>

text \<open>
  While the readings of the clock stay less than 60 seconds after the download of a URL,
  no call of the manager and nothing else the process does changes the copy held for
  that URL or sends a request for it.
\<close>

lemma requests_to_after_download:
  "v \<noteq> u \<Longrightarrow> requests_to u (after_download v m w) = requests_to u w"
  by (simp add: requests_to_def after_download_def)

lemma fresh_copy_recent:
  assumes "fresh_copy u t0 crl m" and "clock w (reads w) - t0 < sixty_seconds"
  shows "recently_downloaded m u (fst (datetime_now w))"
  using assms by (simp add: fresh_copy_def recently_downloaded_def datetime_now_def)

lemma refresh_crl_coalesced:
  assumes "fresh_copy u t0 crl m" and "clock w (reads w) - t0 < sixty_seconds"
  shows "refresh_crl rt u m w = (Some crl, m, w\<lparr>reads := Suc (reads w)\<rparr>)"
  using refresh_crl_recent [OF fresh_copy_recent [OF assms], of rt] assms(1)
  by (simp add: fresh_copy_def)

lemma load_cached_file_copy:
  assumes "load_cached_file rt v p m w = (r, m', w')" and "v \<noteq> u"
  shows "fresh_copy u t0 crl m' = fresh_copy u t0 crl m"
  using load_cached_file_cases [of rt v p m w] assms
  by (auto simp: fresh_copy_def)

lemma refresh_keeps_copy:
  assumes R: "refresh_crl rt v m w = (r, m', w')"
    and F: "fresh_copy u t0 crl m"
    and W: "clock w (reads w) - t0 < sixty_seconds"
  shows "fresh_copy u t0 crl m' \<and> requests_to u w' = requests_to u w"
proof (cases "v = u")
  case True
  with refresh_crl_coalesced [OF F W, of rt] R have "m' = m" and "w' = w\<lparr>reads := Suc (reads w)\<rparr>"
    by simp_all
  with F show ?thesis by (simp add: requests_to_def)
next
  case False
  from R show ?thesis
  proof (cases rule: refresh_crl_cases)
    case recent
    with F show ?thesis by (simp add: requests_to_def)
  next
    case (cached c)
    with F False show ?thesis by (simp add: requests_to_after_download)
  next
    case disk
    from load_cached_file_world [OF disk(3)] load_cached_file_copy [OF disk(3) False, of t0 crl] F False
    show ?thesis by (simp add: requests_to_after_download)
  next
    case (parsed data crl' fs info)
    with F False have "fresh_copy u t0 crl m'" by (simp add: fresh_copy_def)
    moreover from parsed(6) have "requests w' = requests (after_download v m w)" by simp
    then have "requests_to u w' = requests_to u (after_download v m w)"
      by (simp add: requests_to_def)
    ultimately show ?thesis using False by (simp add: requests_to_after_download)
  next
    case (unparsed data fs)
    from F False have "fresh_copy u t0 crl
        (m\<lparr>last_download_time := (last_download_time m)(v \<mapsto> clock w (reads w))\<rparr>)"
      by (simp add: fresh_copy_def)
    with load_cached_file_copy [OF unparsed(4) False, of t0 crl]
    have "fresh_copy u t0 crl m'" by simp
    moreover from load_cached_file_world [OF unparsed(4)]
    have "requests w' = requests (after_download v m w)" by simp
    then have "requests_to u w' = requests_to u (after_download v m w)"
      by (simp add: requests_to_def)
    ultimately show ?thesis using False by (simp add: requests_to_after_download)
  qed
qed

lemma window_first:
  "within_sixty_seconds w t0 lo hi \<Longrightarrow> lo \<le> hi \<Longrightarrow> clock w lo - t0 < sixty_seconds"
  by (simp add: within_sixty_seconds_def)

lemma window_part:
  "within_sixty_seconds w t0 lo hi \<Longrightarrow> lo \<le> lo' \<Longrightarrow> hi' \<le> hi \<Longrightarrow> clock w' = clock w
     \<Longrightarrow> within_sixty_seconds w' t0 lo' hi'"
  by (simp add: within_sixty_seconds_def)

lemma status_keeps_requests:
  "revoked_status rc v w = (rs, w') \<Longrightarrow> requests_to u w' = requests_to u w"
  "not_revoked w = (rs, w') \<Longrightarrow> requests_to u w' = requests_to u w"
  by (auto simp: revoked_status_def not_revoked_def datetime_now_def requests_to_def)

lemma check_crls_keeps_copy:
  assumes "check_crls rt c us m w = (rs, m', w')"
    and "fresh_copy u t0 crl m"
    and "within_sixty_seconds w t0 (reads w) (reads w')"
  shows "fresh_copy u t0 crl m' \<and> requests_to u w' = requests_to u w"
  using assms
proof (induction us arbitrary: m w)
  case Nil
  then show ?case by (auto split: prod.splits dest: status_keeps_requests(2))
next
  case (Cons v us)
  obtain r m1 w1 where R: "refresh_crl rt v m w = (r, m1, w1)"
    by (cases "refresh_crl rt v m w") auto
  note S = refresh_crl_script [OF R]
  from check_crls_script [OF Cons.prems(1)] have le: "reads w \<le> reads w'"
    by (simp add: same_script_def)
  from window_first [OF Cons.prems(3) le]
  have K: "fresh_copy u t0 crl m1 \<and> requests_to u w1 = requests_to u w"
    by (rule refresh_keeps_copy [OF R Cons.prems(2)])
  show ?case
  proof (cases "\<exists>crl' rc. r = Some crl' \<and> find_revoked crl' (serial_number c) = Some rc")
    case True
    then obtain crl' rc where r: "r = Some crl'"
      and F: "find_revoked crl' (serial_number c) = Some rc" by blast
    from check_crls_hit [OF R [unfolded r] F, of us] Cons.prems(1)
    have E: "revoked_status rc v w1 = (rs, w')" and m: "m1 = m'"
      by (simp_all add: prod_eq_iff)
    from status_keeps_requests(1) [OF E, of u] K m show ?thesis by simp
  next
    case False
    then have miss: "case r of None \<Rightarrow> True | Some crl \<Rightarrow> find_revoked crl (serial_number c) = None"
      by (auto split: option.splits)
    from Cons.prems(1) check_crls_miss(1) [OF R miss, of us]
    have C: "check_crls rt c us m1 w1 = (rs, m', w')" by simp
    from S have "reads w \<le> reads w1" and "clock w1 = clock w"
      by (simp_all add: same_script_def)
    from window_part [OF Cons.prems(3) this(1) order_refl this(2)]
    have "within_sixty_seconds w1 t0 (reads w1) (reads w')" .
    from Cons.IH [OF C conjunct1 [OF K] this] K show ?thesis by simp
  qed
qed

lemma check_revocation_keeps_copy:
  assumes "check_certificate_revocation rt c m w = (rs, m', w')"
    and "fresh_copy u t0 crl m"
    and "within_sixty_seconds w t0 (reads w) (reads w')"
  shows "fresh_copy u t0 crl m' \<and> requests_to u w' = requests_to u w"
proof (cases "crl_enabled (config m) \<and> collected_urls m c \<noteq> []")
  case True
  with assms(1) have "check_crls rt c (set_iteration rt (collected_urls m c)) m w = (rs, m', w')"
    by (simp add: check_certificate_revocation_def)
  from check_crls_keeps_copy [OF this assms(2,3)] show ?thesis .
next
  case False
  with assms(1) have "not_revoked w = (rs, w')" and "m' = m"
    by (auto simp: check_certificate_revocation_def split: prod.splits if_splits)
  with status_keeps_requests(2) [of w rs w' u] assms(2) show ?thesis by simp
qed

lemma other_activity_requests:
  assumes "other_activity w w'"
  shows "requests_to u w' = requests_to u w"
proof -
  from assms obtain new where N: "requests w' = requests w @ new"
    and L: "list_all (\<lambda>r. via r \<noteq> CRLSession) new"
    by (auto simp: other_activity_def)
  from L have "filter (\<lambda>r. via r = CRLSession \<and> url r = u) new = []"
    by (induction new) auto
  with N show ?thesis by (simp add: requests_to_def)
qed

lemma crl_run_script:
  "crl_run rt s s' \<Longrightarrow> clock (snd s') = clock (snd s) \<and> reads (snd s) \<le> reads (snd s')"
proof (induction rule: crl_run.induct)
  case run_start
  show ?case by simp
next
  case (run_refresh m w crl_url r m' w')
  from refresh_crl_script [OF run_refresh(2)] run_refresh(3) show ?case
    by (simp add: same_script_def)
next
  case (run_check m w certificate st m' w')
  from check_revocation_script [OF run_check(2)] run_check(3) show ?case
    by (simp add: same_script_def)
next
  case (run_other m w w')
  then show ?case by (simp add: other_activity_def)
qed

lemma crl_run_keeps_copy:
  assumes "crl_run rt (m1, w1) (m2, w2)"
    and "fresh_copy u t0 crl m1"
    and "within_sixty_seconds w1 t0 (reads w1) (reads w2)"
  shows "fresh_copy u t0 crl m2 \<and> requests_to u w2 = requests_to u w1"
proof -
  have "crl_run rt s s' \<Longrightarrow> fresh_copy u t0 crl (fst s) \<Longrightarrow>
          within_sixty_seconds (snd s) t0 (reads (snd s)) (reads (snd s')) \<Longrightarrow>
          fresh_copy u t0 crl (fst s') \<and> requests_to u (snd s') = requests_to u (snd s)" for s s'
  proof (induction rule: crl_run.induct)
    case run_start
    then show ?case by simp
  next
    case (run_refresh m w crl_url r m' w')
    from crl_run_script [OF run_refresh(1)]
    have c: "clock w = clock (snd s)" and le: "reads (snd s) \<le> reads w" by simp_all
    from refresh_crl_script [OF run_refresh(2)] have le': "reads w \<le> reads w'"
      by (simp add: same_script_def)
    from run_refresh(5) have W: "within_sixty_seconds (snd s) t0 (reads (snd s)) (reads w')" by simp
    from window_part [OF W order_refl le' refl]
    have I: "fresh_copy u t0 crl m \<and> requests_to u w = requests_to u (snd s)"
      using run_refresh(3,4) by simp
    from window_part [OF W le order_refl c] le'
    have "clock w (reads w) - t0 < sixty_seconds" by (rule window_first)
    from refresh_keeps_copy [OF run_refresh(2) conjunct1 [OF I] this] I show ?case by simp
  next
    case (run_check m w certificate st m' w')
    from crl_run_script [OF run_check(1)]
    have c: "clock w = clock (snd s)" and le: "reads (snd s) \<le> reads w" by simp_all
    from check_revocation_script [OF run_check(2)] have le': "reads w \<le> reads w'"
      by (simp add: same_script_def)
    from run_check(5) have W: "within_sixty_seconds (snd s) t0 (reads (snd s)) (reads w')" by simp
    from window_part [OF W order_refl le' refl]
    have I: "fresh_copy u t0 crl m \<and> requests_to u w = requests_to u (snd s)"
      using run_check(3,4) by simp
    from window_part [OF W le order_refl c]
    have "within_sixty_seconds w t0 (reads w) (reads w')" .
    from check_revocation_keeps_copy [OF run_check(2) conjunct1 [OF I] this] I show ?case by simp
  next
    case (run_other m w w')
    from run_other(2) have le': "reads w \<le> reads w'" by (simp add: other_activity_def)
    from run_other(5) have W: "within_sixty_seconds (snd s) t0 (reads (snd s)) (reads w')" by simp
    from window_part [OF W order_refl le' refl]
    have I: "fresh_copy u t0 crl m \<and> requests_to u w = requests_to u (snd s)"
      using run_other(3,4) by simp
    with other_activity_requests [OF run_other(2), of u] show ?case by simp
  qed
  from this [OF assms(1)] assms(2,3) show ?thesis by simp
qed

lemma downloaded_copy:
  assumes D: "downloads_data u m w"
    and R: "refresh_crl rt u m w = (Some crl, m1, w1)"
  shows "fresh_copy u (clock w (reads w)) crl m1"
  using R
proof (cases rule: refresh_crl_cases)
  case recent
  with D show ?thesis by (simp add: downloads_data_def datetime_now_def)
next
  case (cached c)
  with D show ?thesis by (simp add: downloads_data_def download_fails_def)
next
  case disk
  with D show ?thesis by (simp add: downloads_data_def download_fails_def)
next
  case (parsed data crl' fs info)
  then show ?thesis by (simp add: fresh_copy_def)
next
  case (unparsed data fs)
  let ?m = "m\<lparr>last_download_time := (last_download_time m)(u \<mapsto> clock w (reads w))\<rparr>"
  from load_cached_file_cases [of rt u "get_crl_file_path rt (crl_cache_dir (config m)) u" ?m
      "(after_download u m w)\<lparr>files := fs\<rparr>"] unparsed(4)
  have "m1 = ?m\<lparr>crl_cache := (crl_cache ?m)(u \<mapsto> crl)\<rparr>" by auto
  then show ?thesis by (simp add: fresh_copy_def)
qed

lemma refresh_crl_reads:
  assumes "refresh_crl rt u m w = (r, m', w')"
  shows "reads w' \<le> Suc (Suc (reads w))"
  using assms
proof (cases rule: refresh_crl_cases)
  case disk
  from load_cached_file_world [OF disk(3)] show ?thesis by (simp add: after_download_def)
next
  case (unparsed data fs)
  from load_cached_file_world [OF unparsed(4)] show ?thesis by (simp add: after_download_def)
qed (simp_all add: after_download_def)

lemma ex_downloads_a: "downloads_data url_a ex_m0 ex_world"
  using ex_download_a [of "snd (datetime_now ex_world)"]
  by (simp add: downloads_data_def ex_m0_not_recent datetime_now_def)

section \<open>What the monitor returns\<close>

lemma threshold_raises:
  "renewal_threshold_days cert_config = NoAttribute \<Longrightarrow>
     get_effective_renewal_threshold mon cert_config = Inl (AttributeError ''renewal_threshold_days'')"
  by (simp add: get_effective_renewal_threshold_def)

lemma threshold_returns:
  "renewal_threshold_days cert_config \<noteq> NoAttribute \<Longrightarrow>
     \<exists>t. get_effective_renewal_threshold mon cert_config = Inr t"
  by (simp add: get_effective_renewal_threshold_def
      split: threshold_attribute.splits option.splits)

lemma threshold_ignores_percent:
  "get_effective_renewal_threshold mon (cert_config\<lparr>renewal_threshold_percent := p\<rparr>) =
     get_effective_renewal_threshold mon cert_config"
  by (simp add: get_effective_renewal_threshold_def)

lemma check_status_raises:
  assumes "renewal_threshold_days cert_config = NoAttribute"
  shows "check_certificate_status rt mon cert_config w = Inl (AttributeError ''renewal_threshold_days'')"
  using threshold_raises [OF assms, of mon]
  by (simp add: check_certificate_status_def error_status_def check_loaded_certificate_def
      split: option.splits)

lemma check_certificate_expiry_result:
  "check_certificate_expiry mon c t w =
     ((not_valid_after c, (not_valid_after c - clock w (reads w)) div one_day,
       (not_valid_after c - clock w (reads w)) div one_day \<le> t,
       urgency (service_config mon) ((not_valid_after c - clock w (reads w)) div one_day) t),
      w\<lparr>reads := Suc (reads w)\<rparr>)"
  by (simp add: check_certificate_expiry_def datetime_now_def urgency_def Let_def
      split: option.splits)

lemma check_status_load_failure:
  assumes "get_effective_renewal_threshold mon cert_config = Inr t"
    and "load_certificate rt (cert_path cert_config) w = None"
  shows "check_certificate_status rt mon cert_config w =
     Inr (\<lparr>status_name = name cert_config, status_cert_path = cert_path cert_config,
            is_valid = False, expires_at = None, days_until_expiry = None, needs_renewal = True,
            status_renewal_threshold_days = t, renewal_reason = ''error'', is_revoked = False,
            revocation_info = None, error_message = Some ''Failed to load certificate''\<rparr>, mon, w)"
  using assms by (simp add: check_certificate_status_def error_status_def)

lemma check_loaded_result:
  assumes T: "get_effective_renewal_threshold mon cert_config = Inr t"
  shows "check_loaded_certificate rt mon cert_config c w =
       Inr (\<lparr>status_name = name cert_config, status_cert_path = cert_path cert_config,
              is_valid = (not_valid_before c \<le> clock w (Suc (reads w)) \<and>
                          clock w (Suc (reads w)) \<le> not_valid_after c \<and>
                          \<not> monitor_revoked rt mon c w),
              expires_at = Some (not_valid_after c),
              days_until_expiry = Some ((not_valid_after c - clock w (reads w)) div one_day),
              needs_renewal = (monitor_revoked rt mon c w \<or>
                 (not_valid_after c - clock w (reads w)) div one_day \<le> t),
              status_renewal_threshold_days = t,
              renewal_reason = urgency (service_config mon)
                 ((not_valid_after c - clock w (reads w)) div one_day) t,
              is_revoked = monitor_revoked rt mon c w,
              revocation_info = monitor_revocation_info rt mon c w, error_message = None\<rparr>,
            mon\<lparr>crl_manager := fst (monitor_after rt mon c w)\<rparr>,
            snd (monitor_after rt mon c w))"
proof -
  let ?w2 = "w\<lparr>reads := Suc (Suc (reads w))\<rparr>"
  let ?valid = "not_valid_before c \<le> clock w (Suc (reads w)) \<and> clock w (Suc (reads w)) \<le> not_valid_after c"
  show ?thesis
  proof (cases "crl_manager mon")
    case None
    with T show ?thesis
      by (simp add: monitor_after_def monitor_revoked_def monitor_revocation_info_def check_loaded_certificate_def check_certificate_expiry_result datetime_now_def Let_def)
  next
    case (Some m)
    obtain rs m' w' where C: "check_certificate_revocation rt c m ?w2 = (rs, m', w')"
      by (cases "check_certificate_revocation rt c m ?w2") auto
    consider (early) "\<not> not_valid_before c \<le> clock w (Suc (reads w))"
      | (late) "not_valid_before c \<le> clock w (Suc (reads w))"
          "\<not> clock w (Suc (reads w)) \<le> not_valid_after c"
      | (valid) "not_valid_before c \<le> clock w (Suc (reads w))"
          "clock w (Suc (reads w)) \<le> not_valid_after c"
      by blast
    then show ?thesis
    proof cases
      case early
      with T Some show ?thesis
        by (simp add: monitor_after_def monitor_revoked_def monitor_revocation_info_def check_loaded_certificate_def check_certificate_expiry_result datetime_now_def Let_def)
    next
      case late
      with T Some show ?thesis
        by (simp add: monitor_after_def monitor_revoked_def monitor_revocation_info_def check_loaded_certificate_def check_certificate_expiry_result datetime_now_def Let_def)
    next
      case valid
      with T Some C show ?thesis
        by (simp add: monitor_after_def monitor_revoked_def monitor_revocation_info_def check_loaded_certificate_def check_certificate_expiry_result datetime_now_def Let_def)
    qed
  qed
qed


lemma check_status_loaded:
  assumes T: "get_effective_renewal_threshold mon cert_config = Inr t"
    and L: "load_certificate rt (cert_path cert_config) w = Some c"
  shows "check_certificate_status rt mon cert_config w =
       Inr (\<lparr>status_name = name cert_config, status_cert_path = cert_path cert_config,
              is_valid = (not_valid_before c \<le> clock w (Suc (reads w)) \<and>
                          clock w (Suc (reads w)) \<le> not_valid_after c \<and>
                          \<not> monitor_revoked rt mon c w),
              expires_at = Some (not_valid_after c),
              days_until_expiry = Some ((not_valid_after c - clock w (reads w)) div one_day),
              needs_renewal = (monitor_revoked rt mon c w \<or>
                 (not_valid_after c - clock w (reads w)) div one_day \<le> t),
              status_renewal_threshold_days = t,
              renewal_reason = urgency (service_config mon)
                 ((not_valid_after c - clock w (reads w)) div one_day) t,
              is_revoked = monitor_revoked rt mon c w,
              revocation_info = monitor_revocation_info rt mon c w, error_message = None\<rparr>,
            mon\<lparr>crl_manager := fst (monitor_after rt mon c w)\<rparr>,
            snd (monitor_after rt mon c w))"
  using check_loaded_result [OF T, of rt c w] L
  by (simp add: check_certificate_status_def)

section \<open>What the monitor leaves untouched\<close>

lemma monitor_after_script: "monitor_after rt mon c w = (manager, w') \<Longrightarrow> same_script w w'"
proof -
  assume M: "monitor_after rt mon c w = (manager, w')"
  let ?w2 = "w\<lparr>reads := Suc (Suc (reads w))\<rparr>"
  have A: "same_script w ?w2" by (simp add: same_script_def)
  from M consider "w' = ?w2"
    | rs m m1 where "check_certificate_revocation rt c m ?w2 = (rs, m1, w')"
    by (auto simp: monitor_after_def split: option.splits if_splits prod.splits)
  then show ?thesis
  proof cases
    case 1
    with A show ?thesis by simp
  next
    case 2
    from same_script_trans [OF A check_revocation_script [OF 2]] show ?thesis .
  qed
qed

lemma check_status_script:
  assumes "check_certificate_status rt mon cert_config w = Inr (status, mon', w')"
  shows "same_script w w'"
proof (cases "renewal_threshold_days cert_config = NoAttribute")
  case True
  from check_status_raises [OF this, of rt mon w] assms show ?thesis by simp
next
  case False
  from threshold_returns [OF this, of mon] obtain t where
    T: "get_effective_renewal_threshold mon cert_config = Inr t" by blast
  show ?thesis
  proof (cases "load_certificate rt (cert_path cert_config) w")
    case None
    from check_status_load_failure [OF T None] assms show ?thesis
      by (simp add: same_script_refl)
  next
    case (Some c)
    from check_status_loaded [OF T Some] assms
    have "monitor_after rt mon c w = (fst (monitor_after rt mon c w), w')" by simp
    then show ?thesis by (rule monitor_after_script)
  qed
qed

lemma check_all_script:
  "check_all_certificates rt mon cs w = Inr (statuses, mon', w') \<Longrightarrow> same_script w w'"
proof (induction cs arbitrary: mon w statuses)
  case Nil
  then show ?case by (simp add: same_script_refl)
next
  case (Cons c cs)
  from Cons.prems obtain st mon1 w1 sts where
    A: "check_certificate_status rt mon c w = Inr (st, mon1, w1)" and
    B: "check_all_certificates rt mon1 cs w1 = Inr (sts, mon', w')"
    by (auto split: sum.splits prod.splits)
  from same_script_trans [OF check_status_script [OF A] Cons.IH [OF B]] show ?case .
qed

section \<open>Renewal through EST\<close>



section \<open>A renewal inside a pass\<close>



section \<open>The monitor of the concrete installation at work\<close>










section \<open>The clients on the concrete installation\<close>

lemma ex_est_client_fields:
  "est_url ex_est_client = ex_est_url"
  "est_session_verify ex_est_client = VerifyCA ''/ca/root.crt''"
  by (simp_all add: ex_est_client_def ESTClient_init_def ex_step_config_def)

lemma ex_client_fields:
  "uses_est (client_config ex_client)"
  "est_client ex_client = Some ex_est_client"
  "step_cli_path ex_client = None"
  "uses_est ex_step_config"
  by (simp_all add: ex_client_def StepCAClient_init_def ex_est_client_def uses_est_def upper_def
        ex_step_config_def)


lemma ex_renew_key_readonly:
  "est_renew_certificate ex_rt ex_est_client ex_cert_config ex_world_key_readonly =
     (False, ex_world_key_readonly
        \<lparr>requests := [\<lparr>via = ESTSession, http_method = ''POST'',
                        url = ex_est_url ''simplereenroll'', tls_verify = VerifyCA ''/ca/root.crt''\<rparr>],
         files := (files ex_world)(''/certs/web.crt.backup'' \<mapsto> ''cert-1'',
                                   ''/certs/web.crt'' \<mapsto> ''cert-3'')\<rparr>)"
  by (simp add: est_renew_certificate_def ex_est_client_fields ex_cert_config_def
        ex_world_key_readonly_def ex_world_renewing_def ex_world_def ex_rt_def
        send_request_def request_verify_def write_file_def os_chmod_def ex_est_url_def)



section \<open>A pass of the service on the concrete installation\<close>



section \<open>When a certificate needs renewal\<close>




section \<open>The reason of a renewal\<close>






section \<open>Claim C3: a failed renewal and the files of the certificate\<close>

text \<open>
  Claim C3 says that after every renewal attempt that fails the bytes at \<^verbatim>\<open>cert_path\<close> and
  \<^verbatim>\<open>key_path\<close> are those from before the call. The EST client writes the backup, the new
  certificate and the new key one after the other inside one \<^verbatim>\<open>try\<close> block, and its
  handler returns \<open>False\<close> without copying the backup back. On the installation whose CA
  answers the re-enrollment with 200 and whose key file cannot be opened for writing, the
  renewal fails, and the certificate file holds the new certificate next to the old key.
\<close>

theorem est_renewal_failure_replaces_certificate:
  "fst (renew_certificate ex_rt ex_client ex_cert_config ex_world_key_readonly) = False \<and>
   files ex_world_key_readonly (cert_path ex_cert_config) = Some ''cert-1'' \<and>
   files (snd (renew_certificate ex_rt ex_client ex_cert_config ex_world_key_readonly))
     (cert_path ex_cert_config) = Some ''cert-3'' \<and>
   files (snd (renew_certificate ex_rt ex_client ex_cert_config ex_world_key_readonly))
     (key_path ex_cert_config) = Some ''key-1''"
  by (simp add: renew_certificate_def ex_client_fields ex_renew_key_readonly)
     (simp add: ex_cert_config_def ex_world_key_readonly_def ex_world_renewing_def ex_world_def)

section \<open>Claim C4: the backup of the certificate\<close>




section \<open>The effective renewal threshold\<close>

text \<open>
  Claim C5 says that a percentage set for the certificate is converted into days of its
  lifetime. \<^verbatim>\<open>get_effective_renewal_threshold\<close> never reads the percentage (lemma
  \<open>threshold_ignores_percent\<close>); it reads the attribute \<^verbatim>\<open>renewal_threshold_days\<close>, which
  the class \<^verbatim>\<open>CertificateConfig\<close> does not have. For the managed certificate of the
  concrete installation, configured with 50 percent of a lifetime of 110 days, the lookup
  and with it the whole status check end in an \<^verbatim>\<open>AttributeError\<close>; on an object that
  carries the attribute as \<^verbatim>\<open>None\<close> or as 30 days the threshold is 30 days, not 55.
\<close>

theorem effective_threshold_ignores_percent:
  "renewal_threshold_percent ex_cert_config = Some 50 \<and>
   get_effective_renewal_threshold ex_monitor ex_cert_config
     = Inl (AttributeError ''renewal_threshold_days'') \<and>
   check_certificate_status ex_rt ex_monitor ex_cert_config ex_world
     = Inl (AttributeError ''renewal_threshold_days'') \<and>
   get_effective_renewal_threshold ex_monitor (ex_cert_config\<lparr>renewal_threshold_days := IsNone\<rparr>)
     = Inr 30 \<and>
   get_effective_renewal_threshold ex_monitor ex_cert_config_days = Inr 30 \<and>
   (not_valid_after ex_cert - not_valid_before ex_cert) div one_day = 110"
proof -
  have N: "renewal_threshold_days ex_cert_config = NoAttribute"
    by (simp add: ex_cert_config_def)
  have "get_effective_renewal_threshold ex_monitor (ex_cert_config\<lparr>renewal_threshold_days := IsNone\<rparr>)
     = Inr 30"
    by (simp add: get_effective_renewal_threshold_def ex_monitor_fields ex_service_config_def)
  moreover have "get_effective_renewal_threshold ex_monitor ex_cert_config_days = Inr 30"
    by (simp add: get_effective_renewal_threshold_def ex_cert_config_days_def)
  moreover have "(not_valid_after ex_cert - not_valid_before ex_cert) div one_day = 110"
    by (simp add: ex_cert_def one_day_def)
  moreover have "renewal_threshold_percent ex_cert_config = Some 50"
    by (simp add: ex_cert_config_def)
  ultimately show ?thesis
    using threshold_raises [OF N, of ex_monitor] check_status_raises [OF N, of ex_rt ex_monitor ex_world]
    by simp
qed

section \<open>Claim C6: the window of 60 seconds\<close>

text \<open>
  Claim C6. A call of \<^verbatim>\<open>refresh_crl\<close> for a URL goes to the network, the download
  delivers data, and the call returns a CRL. After that the process does whatever it does:
  further refreshes and revocation checks, for any URL and certificate, and any other
  activity in between. If every reading of the clock from the end of the first call up to
  and including the one of a later call of \<^verbatim>\<open>refresh_crl\<close> for the same URL is less than 60
  seconds after the reading of the first call, then the later call returns the same CRL
  from memory, changes nothing but the count of the readings of the clock, and no request
  for this URL has been sent since the first call.
\<close>

theorem refresh_crl_within_sixty_seconds:
  assumes "downloads_data u m w"
    and "refresh_crl rt u m w = (Some crl, m1, w1)"
    and "crl_run rt (m1, w1) (m2, w2)"
    and "within_sixty_seconds w (clock w (reads w)) (reads w1) (reads w2)"
  shows "refresh_crl rt u m2 w2 = (Some crl, m2, w2\<lparr>reads := Suc (reads w2)\<rparr>) \<and>
         requests_to u w2 = requests_to u w1"
proof -
  let ?t0 = "clock w (reads w)"
  note F = downloaded_copy [OF assms(1,2)]
  from refresh_crl_script [OF assms(2)] have c1: "clock w1 = clock w"
    by (simp add: same_script_def)
  from crl_run_script [OF assms(3)] have c2: "clock w2 = clock w1" and le: "reads w1 \<le> reads w2"
    by simp_all
  from window_part [OF assms(4) order_refl order_refl c1]
  have W1: "within_sixty_seconds w1 ?t0 (reads w1) (reads w2)" .
  from crl_run_keeps_copy [OF assms(3) F W1]
  have K: "fresh_copy u ?t0 crl m2" and Q: "requests_to u w2 = requests_to u w1" by simp_all
  from window_part [OF W1 le order_refl c2]
  have "clock w2 (reads w2) - ?t0 < sixty_seconds" by (rule window_first) simp
  from refresh_crl_coalesced [OF K this, of rt] Q show ?thesis by simp
qed

text \<open>
  On the installation: a refresh of the configured source, two readings of the clock by
  the rest of the process, a refresh of the other source, and the configured source again.
\<close>

theorem refresh_crl_within_sixty_seconds_witness:
  "refresh_crl ex_rt url_a (fst (snd ex_later)) (snd (snd ex_later)) =
     (Some ex_crl_a, fst (snd ex_later),
      (snd (snd ex_later))\<lparr>reads := Suc (reads (snd (snd ex_later)))\<rparr>) \<and>
   requests_to url_a (snd (snd ex_later)) = requests_to url_a (snd (snd ex_first))"
proof -
  let ?m1 = "fst (snd ex_first)" and ?w1 = "snd (snd ex_first)"
  let ?w1' = "?w1\<lparr>reads := Suc (Suc (reads ?w1))\<rparr>"
  let ?m2 = "fst (snd ex_later)" and ?w2 = "snd (snd ex_later)"
  have R1: "refresh_crl ex_rt url_a ex_m0 ex_world = (Some ex_crl_a, ?m1, ?w1)"
    using ex_first_refresh(1) [of ex_world] by (simp add: ex_first_def prod_eq_iff)
  have R2: "refresh_crl ex_rt url_b ?m1 ?w1' = (fst ex_later, ?m2, ?w2)"
    by (simp add: ex_later_def)
  have O: "other_activity ?w1 ?w1'"
    by (simp add: other_activity_def)
  have run: "crl_run ex_rt (?m1, ?w1) (?m2, ?w2)"
    by (rule run_refresh [OF run_other [OF run_start O] R2])
  from refresh_crl_reads [OF R1] refresh_crl_reads [OF R2]
  have "reads ?w2 \<le> 6" by (simp add: ex_world_def)
  then have W: "within_sixty_seconds ex_world (clock ex_world (reads ex_world)) (reads ?w1) (reads ?w2)"
    by (simp add: within_sixty_seconds_def ex_world_def sixty_seconds_def)
  from refresh_crl_within_sixty_seconds [OF ex_downloads_a R1 run W] show ?thesis .
qed

section \<open>Falling back to the cached copy\<close>

text \<open>A URL whose refresh gives nothing is skipped by the loop over the URLs.\<close>

lemma check_crls_skips_missing:
  "refresh_crl rt u m w = (None, m', w') \<Longrightarrow>
     check_crls rt c (u # rest) m w = check_crls rt c rest m' w'"
  by simp

text \<open>
  Claim C7 says that after a failed download \<^verbatim>\<open>refresh_crl\<close> falls back to the cached copy,
  in memory or on disk, when one exists. The copy in memory is returned as it is (lemma
  \<open>refresh_crl_failed\<close>), but the copy loaded from disk goes through the test
  \<^verbatim>\<open>if crl:\<close>, which a CRL without entries does not pass. In the concrete installation
  with the network down, the cache file of the first source holds a valid CRL that revokes
  nothing, the manager has no copy in memory, the download fails, and the refresh returns
  nothing.
\<close>

theorem refresh_crl_ignores_empty_cached_crl:
  "load_crl_from_file ex_rt (get_crl_file_path ex_rt (crl_cache_dir (config ex_m0)) url_a)
     ex_world_offline = Some ex_crl_empty \<and>
   crl_cache ex_m0 url_a = None \<and>
   download_fails url_a ex_m0 ex_world_offline \<and>
   fst (refresh_crl ex_rt url_a ex_m0 ex_world_offline) = None"
proof -
  let ?p = "get_crl_file_path ex_rt (crl_cache_dir (config ex_m0)) url_a"
  have p: "?p = ''certs/crl/'' @ url_a"
    by (simp add: ex_m0_fields ex_step_config_def ex_rt_def)
  have L: "load_crl_from_file ex_rt ?p w = Some ex_crl_empty"
    if "files w = files ex_world_offline" for w
    unfolding p using that
    by (simp add: load_crl_from_file_def parse_crl_def ex_world_offline_def ex_rt_def)
  have F: "download_fails url_a ex_m0 ex_world_offline"
    by (simp add: download_fails_def recently_downloaded_def ex_m0_fields datetime_now_def
        download_crl_def send_request_def ex_world_offline_def)
  have E: "\<not> crl_truthy ex_crl_empty"
    by (simp add: crl_truthy_def ex_crl_empty_def)
  have "files (after_download url_a ex_m0 ex_world_offline) = files ex_world_offline"
    by (simp add: after_download_def)
  from L [OF this] E
  have "load_cached_file ex_rt url_a ?p ex_m0 (after_download url_a ex_m0 ex_world_offline)
          = (None, ex_m0, after_download url_a ex_m0 ex_world_offline)"
    by (simp add: load_cached_file_def)
  with refresh_crl_failed [OF F, of ex_rt] L [of ex_world_offline] F show ?thesis
    by (simp add: ex_m0_fields)
qed

section \<open>Claim C8: the order of the CRL sources\<close>

text \<open>
  Claim C8 says that the URLs are tried in the order of the configuration, followed by
  the distribution points of the certificate, and that the first CRL with the serial
  number wins. The code puts the URLs into a \<^verbatim>\<open>set\<close> and walks through the set, whose
  order is the runtime's. On the installation the configured source and the distribution
  point of the certificate both list the certificate; a runtime that walks the set from
  the distribution point reports that source and its reason, although the configured
  source comes first in the claim's order and lists the certificate too; a runtime that
  walks it the other way reports the configured source.
\<close>

theorem revocation_source_depends_on_set_order:
  "collected_urls ex_m0 ex_cert = [url_a, url_b] \<and>
   fst (refresh_crl ex_rt_rev url_a ex_m0 ex_world) = Some ex_crl_a \<and>
   find_revoked ex_crl_a (serial_number ex_cert) \<noteq> None \<and>
   crl_source (fst (check_certificate_revocation ex_rt_rev ex_cert ex_m0 ex_world)) = Some url_b \<and>
   revocation_reason (fst (check_certificate_revocation ex_rt_rev ex_cert ex_m0 ex_world))
     = Some ''Unspecified'' \<and>
   crl_source (fst (check_certificate_revocation ex_rt ex_cert ex_m0 ex_world)) = Some url_a \<and>
   revocation_reason (fst (check_certificate_revocation ex_rt ex_cert ex_m0 ex_world))
     = Some ''key_compromise''"
  using ex_collected ex_first_refresh(3) [of ex_world] ex_found(1)
    ex_check_revocation_rev [of ex_world] ex_check_revocation [of ex_world]
  by simp

text \<open>
  Claim C8 as the code has it. The URLs are tried in the order in which the runtime walks
  the set of the configured URLs and the distribution points, each URL once. A revoked
  result comes from the first URL in that order whose refreshed CRL has the serial
  number: the URLs before it were passed over, the status names this URL as its source,
  and no request is sent after its refresh. A result that is not revoked means that every
  URL was passed over.
\<close>

theorem revocation_check_in_set_order:
  assumes "set_iteration_ok rt" and "crl_enabled (config m)"
    and "check_certificate_revocation rt c m w = (rs, m', w')"
  shows "distinct (set_iteration rt (collected_urls m c)) \<and>
         set (set_iteration rt (collected_urls m c)) = set (collected_urls m c) \<and>
         (if rs_is_revoked rs
          then \<exists>us u rest mu wu crl rc w1.
                 set_iteration rt (collected_urls m c) = us @ u # rest \<and>
                 passed_over rt c us m w = Some (mu, wu) \<and>
                 refresh_crl rt u mu wu = (Some crl, m', w1) \<and>
                 find_revoked crl (serial_number c) = Some rc \<and>
                 revoked_status rc u w1 = (rs, w') \<and> crl_source rs = Some u \<and>
                 requests w' = requests w1
          else \<exists>wn. passed_over rt c (set_iteration rt (collected_urls m c)) m w = Some (m', wn) \<and>
                 not_revoked wn = (rs, w'))"
proof -
  let ?order = "set_iteration rt (collected_urls m c)"
  from assms(1) have D: "distinct ?order" and S: "set ?order = set (collected_urls m c)"
    by (simp_all add: set_iteration_ok_def)
  have C: "check_crls rt c ?order m w = (rs, m', w')"
  proof (cases "collected_urls m c = []")
    case True
    with S have "?order = []" by simp
    with assms(2,3) True show ?thesis
      by (simp add: check_certificate_revocation_def)
  next
    case False
    with assms(2,3) show ?thesis
      by (simp add: check_certificate_revocation_def)
  qed
  note O = check_crls_outcome [OF C]
  show ?thesis
  proof (cases "rs_is_revoked rs")
    case True
    with O obtain us u rest mu wu crl rc w1 where
      H: "?order = us @ u # rest" "passed_over rt c us m w = Some (mu, wu)"
         "refresh_crl rt u mu wu = (Some crl, m', w1)"
         "find_revoked crl (serial_number c) = Some rc"
         "revoked_status rc u w1 = (rs, w')"
      by auto
    from H(5) revoked_status_revoked(2,3) [of rc u w1]
    have X: "crl_source rs = Some u" "requests w' = requests w1" by auto
    have "?order = us @ u # rest \<and> passed_over rt c us m w = Some (mu, wu) \<and>
          refresh_crl rt u mu wu = (Some crl, m', w1) \<and>
          find_revoked crl (serial_number c) = Some rc \<and>
          revoked_status rc u w1 = (rs, w') \<and> crl_source rs = Some u \<and>
          requests w' = requests w1"
      using H X by simp
    then have "\<exists>us u rest mu wu crl rc w1.
                 ?order = us @ u # rest \<and>
                 passed_over rt c us m w = Some (mu, wu) \<and>
                 refresh_crl rt u mu wu = (Some crl, m', w1) \<and>
                 find_revoked crl (serial_number c) = Some rc \<and>
                 revoked_status rc u w1 = (rs, w') \<and> crl_source rs = Some u \<and>
                 requests w' = requests w1"
      by blast
    with True D S show ?thesis by simp
  next
    case False
    with O D S show ?thesis by simp
  qed
qed

text \<open>The installation under the runtime that walks the set from the distribution point.\<close>

theorem revocation_check_in_set_order_witness:
  "set_iteration_ok ex_rt_rev \<and> crl_enabled (config ex_m0) \<and>
   rs_is_revoked (fst (check_certificate_revocation ex_rt_rev ex_cert ex_m0 ex_world)) \<and>
   distinct (set_iteration ex_rt_rev (collected_urls ex_m0 ex_cert)) \<and>
   (\<exists>us u rest mu wu.
      set_iteration ex_rt_rev (collected_urls ex_m0 ex_cert) = us @ u # rest \<and>
      passed_over ex_rt_rev ex_cert us ex_m0 ex_world = Some (mu, wu) \<and>
      crl_source (fst (check_certificate_revocation ex_rt_rev ex_cert ex_m0 ex_world)) = Some u)"
proof -
  let ?R = "check_certificate_revocation ex_rt_rev ex_cert ex_m0 ex_world"
  have E: "crl_enabled (config ex_m0)"
    by (simp add: ex_m0_fields ex_step_config_def)
  have R: "?R = (fst ?R, fst (snd ?R), snd (snd ?R))" by simp
  from ex_check_revocation_rev [of ex_world] have V: "rs_is_revoked (fst ?R)" by simp
  from revocation_check_in_set_order [OF ex_rt_rev_ok(1) E R] V E ex_rt_rev_ok(1)
  show ?thesis by (simp only: if_True simp_thms) blast
qed

section \<open>Claim C9: error messages and the reason \<open>error\<close>\<close>




section \<open>TLS verification of CRL downloads\<close>

text \<open>A first refresh in the concrete installation sends one request, under the setting of the request.\<close>

lemma ex_refresh_eval:
  assumes "config m = ex_step_config \<or> config m = ex_unpinned_config"
    and "crl_cache m = Map.empty" and "last_download_time m = Map.empty"
    and "w = ex_world \<or> w = ex_world_env"
  shows "requests (snd (snd (refresh_crl ex_rt url_a m w))) =
           [\<lparr>via = CRLSession, http_method = ''GET'', url = url_a,
             tls_verify = request_verify w (session_verify m)\<rparr>]"
proof -
  have nr: "\<not> recently_downloaded m url_a t" for t
    using assms by (simp add: recently_downloaded_def)
  have dl: "fst (download_crl url_a m (snd (datetime_now w))) = Some ''crl-a''"
    using assms(4)
    by (auto simp: download_crl_def send_request_def datetime_now_def ex_world_def ex_world_env_def)
  have D: "downloads_data url_a m w"
    using nr dl by (simp add: downloads_data_def)
  obtain r m' w' where R: "refresh_crl ex_rt url_a m w = (r, m', w')"
    by (cases "refresh_crl ex_rt url_a m w") auto
  have P: "parse_crl ex_rt ''crl-a'' = Some ex_crl_a"
    by (simp add: parse_crl_def ex_rt_def)
  have req0: "requests w = []"
    using assms(4) by (auto simp: ex_world_def ex_world_env_def)
  from R have "requests w' = requests (after_download url_a m w)"
  proof (cases rule: refresh_crl_cases)
    case (parsed data crl fs info)
    then show ?thesis by simp
  next
    case (unparsed data fs)
    with dl P show ?thesis by simp
  qed (use D in \<open>simp_all add: downloads_data_def download_fails_def datetime_now_def\<close>)
  with R req0 show ?thesis by (simp add: after_download_def)
qed


text \<open>
  Claim C10 says that every CRL download runs under the setting that the constructor of
  the manager chose: pinned to the root certificate when \<^verbatim>\<open>root_cert_path\<close> is set and
  the file exists, without verification otherwise. The downloads pass no \<^verbatim>\<open>verify\<close>
  argument, so a CA bundle named by the environment of the process takes the place of the
  session's setting. In the concrete installation with such an environment the manager
  built with the existing root certificate chooses the pinned setting, the manager built
  without a root certificate chooses no verification, and the download of either is
  verified against the bundle of the environment.
\<close>

theorem crl_download_under_environment_bundle:
  "session_verify (CRLManager_init ex_step_config ex_world_env) = VerifyCA ''/ca/root.crt'' \<and>
   map tls_verify (requests (snd (snd
       (refresh_crl ex_rt url_a (CRLManager_init ex_step_config ex_world_env) ex_world_env))))
     = [VerifyCA ''/etc/ssl/corporate.pem''] \<and>
   session_verify (CRLManager_init ex_unpinned_config ex_world_env) = VerifyDisabled \<and>
   map tls_verify (requests (snd (snd
       (refresh_crl ex_rt url_a (CRLManager_init ex_unpinned_config ex_world_env) ex_world_env))))
     = [VerifyCA ''/etc/ssl/corporate.pem'']"
proof -
  have 1: "session_verify (CRLManager_init ex_step_config ex_world_env) = VerifyCA ''/ca/root.crt''"
    by (simp add: CRLManager_init_def ex_step_config_def ex_world_env_def ex_world_def path_exists_def)
  have 2: "session_verify (CRLManager_init ex_unpinned_config ex_world_env) = VerifyDisabled"
    by (simp add: CRLManager_init_def ex_unpinned_config_def)
  have e: "request_verify ex_world_env v = VerifyCA ''/etc/ssl/corporate.pem''" for v
    by (simp add: request_verify_def ex_world_env_def)
  have 3: "requests (snd (snd (refresh_crl ex_rt url_a (CRLManager_init c ex_world_env) ex_world_env)))
      = [\<lparr>via = CRLSession, http_method = ''GET'', url = url_a,
          tls_verify = VerifyCA ''/etc/ssl/corporate.pem''\<rparr>]"
    if "c = ex_step_config \<or> c = ex_unpinned_config" for c
    using ex_refresh_eval [of "CRLManager_init c ex_world_env" ex_world_env] that e
    by (auto simp: CRLManager_init_def)
  from 1 2 3 [of ex_step_config] 3 [of ex_unpinned_config] show ?thesis by simp
qed

end
